theory Spec2Isabelle
  imports Main
begin

section \<open>The cometD module of sf-cometd-client\<close>

text \<open>
  A shallow embedding of \<^verbatim>\<open>src/main/default/lwc/cometD/cometD.js\<close>: the module
  variable \<^verbatim>\<open>scriptPromise\<close>, the helper \<^verbatim>\<open>loadCometd\<close> and the exported
  \<^verbatim>\<open>initCometD\<close> with the closure \<^verbatim>\<open>disconnect\<close> of the handle it resolves with.

  The module only calls into code that is not part of the repository: the host's
  \<^verbatim>\<open>loadScript\<close>, the Apex method \<^verbatim>\<open>getContext\<close> and the bundled CometD client.
  Each of those calls is recorded in a log, in the order the module makes it, and what
  the callee answers is a parameter of the model (the record \<open>host\<close> below), so that
  every theorem holds for every answer. \<^verbatim>\<open>loadScript\<close> and \<^verbatim>\<open>getContext\<close> return a promise,
  which may resolve, reject or stay pending; every method of the client may throw.
\<close>

subsection \<open>JavaScript values\<close>

text \<open>
  The values the module handles. A function value is a closure of the module or an opaque
  function of the caller (\<open>UserFn\<close>, identified by a number); \<open>DisconnectFn c s\<close> is the
  arrow function of lines 62-75 with the variables \<^verbatim>\<open>cometd\<close> and \<^verbatim>\<open>subscription\<close>
  it captures; \<open>NoopFn\<close> is the empty arrow function of line 31. \<open>JCometD c\<close> is the
  c-th client instance the module constructed, \<open>JError m\<close> is \<^verbatim>\<open>new Error(m)\<close>.
  Numbers are restricted to the integers.
\<close>

datatype jsval =
    JUndefined
  | JNull
  | JBool bool
  | JNum int
  | JStr string
  | JError string
  | JObj "(string \<times> jsval) list"
  | JCometD nat
  | JFun fn
and fn =
    UserFn nat
  | NoopFn
  | DisconnectFn nat jsval

text \<open>JavaScript's ToBoolean, as \<^verbatim>\<open>!x\<close> and \<^verbatim>\<open>if (x)\<close> apply it.\<close>

fun truthy :: "jsval \<Rightarrow> bool" where
  "truthy JUndefined = False"
| "truthy JNull = False"
| "truthy (JBool b) = b"
| "truthy (JNum n) = (n \<noteq> 0)"
| "truthy (JStr s) = (s \<noteq> [])"
| "truthy (JError m) = True"
| "truthy (JObj kvs) = True"
| "truthy (JCometD c) = True"
| "truthy (JFun f) = True"

fun typeof :: "jsval \<Rightarrow> string" where
  "typeof JUndefined = ''undefined''"
| "typeof JNull = ''object''"
| "typeof (JBool b) = ''boolean''"
| "typeof (JNum n) = ''number''"
| "typeof (JStr s) = ''string''"
| "typeof (JError m) = ''object''"
| "typeof (JObj kvs) = ''object''"
| "typeof (JCometD c) = ''object''"
| "typeof (JFun f) = ''function''"

text \<open>
  Reading the property \<open>k\<close> of a value that is neither \<^verbatim>\<open>undefined\<close> nor \<^verbatim>\<open>null\<close>: a
  property that is not there reads as \<^verbatim>\<open>undefined\<close>. An object literal is the list of
  its properties in the order written.
\<close>

fun get_prop :: "jsval \<Rightarrow> string \<Rightarrow> jsval" where
  "get_prop (JObj kvs) k = (case map_of kvs k of None \<Rightarrow> JUndefined | Some v \<Rightarrow> v)"
| "get_prop (JError m) k = (if k = ''message'' then JStr m else JUndefined)"
| "get_prop v k = JUndefined"

text \<open>\<^verbatim>\<open>Object.keys\<close>: the names of the properties an object has.\<close>

fun own_keys :: "jsval \<Rightarrow> string list" where
  "own_keys (JObj kvs) = map fst kvs"
| "own_keys v = []"

text \<open>Optional chaining \<^verbatim>\<open>v?.k\<close>.\<close>

definition opt_get :: "jsval \<Rightarrow> string \<Rightarrow> jsval" where
  "opt_get v k = (if v = JUndefined \<or> v = JNull then JUndefined else get_prop v k)"

text \<open>A default of a destructured parameter applies when the property is \<^verbatim>\<open>undefined\<close>.\<close>

definition default_to :: "jsval \<Rightarrow> jsval \<Rightarrow> jsval" where
  "default_to d v = (if v = JUndefined then d else v)"

subsection \<open>Promises, completions and the log of foreign calls\<close>

text \<open>
  A promise is modelled by its state: \<open>Pending\<close>, or settled for good as \<open>Resolved\<close> or
  \<open>Rejected\<close>. The promises of the host are given by how they eventually settle
  (\<open>Pending\<close>: never). The promise the host's loader returns keeps an identity (the number of loader
  calls made before it), since the module stores and hands out that very object.
\<close>

datatype 'a settle = Pending | Resolved 'a | Rejected jsval

text \<open>
  \<^verbatim>\<open>resolve\<close> and \<^verbatim>\<open>reject\<close> of a promise in state \<open>p\<close>: only the first of them to be
  called settles the promise, a later call does nothing.
\<close>

definition settle_with :: "'a settle \<Rightarrow> 'a settle \<Rightarrow> 'a settle" where
  "settle_with new p = (case p of Pending \<Rightarrow> new | Resolved v \<Rightarrow> Resolved v | Rejected r \<Rightarrow> Rejected r)"

datatype promise = Promise (promise_id: nat) (outcome: "jsval settle")

text \<open>How a call of foreign code completes: it returns a value or throws one.\<close>

datatype 'a completion = Returns 'a | Throws jsval

datatype call =
    LoadScript jsval
  | GetContext
  | NewCometD nat
  | Configure nat jsval
  | SetWebsocketEnabled nat jsval
  | Handshake nat
  | Subscribe nat jsval jsval
  | Unsubscribe nat jsval
  | Disconnect nat jsval

fun is_LoadScript :: "call \<Rightarrow> bool" where
  "is_LoadScript (LoadScript c) = True"
| "is_LoadScript e = False"

fun is_GetContext :: "call \<Rightarrow> bool" where
  "is_GetContext GetContext = True"
| "is_GetContext e = False"

fun is_NewCometD :: "call \<Rightarrow> bool" where
  "is_NewCometD (NewCometD c) = True"
| "is_NewCometD e = False"

fun is_Handshake :: "call \<Rightarrow> bool" where
  "is_Handshake (Handshake c) = True"
| "is_Handshake e = False"

fun is_Subscribe :: "call \<Rightarrow> bool" where
  "is_Subscribe (Subscribe c ch f) = True"
| "is_Subscribe e = False"

text \<open>
  The state that outlives a call: the module variable of line 9 (\<open>None\<close> while it is
  \<^verbatim>\<open>undefined\<close>) and, as a ghost, the log of the foreign calls made so far, oldest first.
\<close>

record world =
  scriptPromise :: "promise option"
  calls :: "call list"

definition module_init :: world where
  "module_init = \<lparr>scriptPromise = None, calls = []\<rparr>"

definition log :: "call \<Rightarrow> world \<Rightarrow> world" where
  "log c w = w\<lparr>calls := calls w @ [c]\<rparr>"

text \<open>The foreign calls a run added to the log.\<close>

definition new_calls :: "world \<Rightarrow> world \<Rightarrow> call list" where
  "new_calls w w' = drop (length (calls w)) (calls w')"

subsection \<open>What the host and the client library answer\<close>

text \<open>
  Modelled from the spec: the Apex class \<^verbatim>\<open>CometDController\<close> behind \<^verbatim>\<open>getContext\<close> is
  not under src/. The spec describes it as a context provider returning two fields; the
  module reads them as \<^verbatim>\<open>sessionId\<close> and \<^verbatim>\<open>apiVersion\<close>, and the README names the
  same two. Both are strings; a field may be missing (\<open>None\<close>), and the whole context may
  be \<^verbatim>\<open>null\<close> (the \<open>None\<close> of \<open>auth_context option\<close>).
\<close>

record auth_context =
  sessionId :: "string option"
  apiVersion :: "string option"

text \<open>ToBoolean of such a field: a missing or empty string is falsy.\<close>

fun truthy_str :: "string option \<Rightarrow> bool" where
  "truthy_str None = False"
| "truthy_str (Some s) = (s \<noteq> [])"

text \<open>\<^verbatim>\<open>ctx?.sessionId\<close>: \<^verbatim>\<open>undefined\<close> for a \<^verbatim>\<open>null\<close> context.\<close>

fun opt_sessionId :: "auth_context option \<Rightarrow> string option" where
  "opt_sessionId None = None"
| "opt_sessionId (Some c) = sessionId c"

text \<open>A field inside a template literal.\<close>

fun str_of :: "string option \<Rightarrow> string" where
  "str_of None = ''undefined''"
| "str_of (Some s) = s"

text \<open>
  What the client does once \<^verbatim>\<open>cometd.handshake(callback)\<close> has been called, one step after
  the other. It may invoke the callback, any number of times (the client keeps the callback
  and runs it again on every later handshake): \<open>Invoke status answer escapes\<close> is an
  invocation with \<open>status\<close>, in which \<^verbatim>\<open>cometd.subscribe\<close>, if the callback calls it,
  completes as \<open>answer\<close>; \<open>escapes\<close> says what the client does with an exception of the
  callback: when the invocation is made inside \<^verbatim>\<open>handshake()\<close> and the client does not
  catch it, the exception leaves \<^verbatim>\<open>handshake()\<close> and with it the executor of the promise
  (\<open>True\<close>); otherwise it stays with the client (\<open>False\<close>). And \<^verbatim>\<open>handshake()\<close> may throw
  an exception of its own (\<open>HandshakeThrows\<close>).
\<close>

datatype client_step = Invoke jsval "jsval completion" bool | HandshakeThrows jsval

text \<open>
  The answers of one run of \<^verbatim>\<open>initCometD\<close>: how the promise of \<^verbatim>\<open>loadScript\<close> settles
  if the loader is called, how the promise of \<^verbatim>\<open>getContext()\<close> settles, which of the two
  rejections \<^verbatim>\<open>Promise.all\<close> sees first when both reject, the global \<^verbatim>\<open>window\<close> as
  far as \<^verbatim>\<open>window?.org?.cometd?.CometD\<close> reads it, \<^verbatim>\<open>window.location\<close>, whether the
  constructor and \<^verbatim>\<open>configure\<close> of the CometD client throw, and what the client does after
  \<^verbatim>\<open>handshake\<close> has been called.
\<close>

record host =
  loadScript_result :: "jsval settle"
  getContext_result :: "auth_context option settle"
  script_rejects_first :: bool
  window :: jsval
  location_protocol :: string
  location_hostname :: string
  new_CometD_throws :: "jsval option"
  configure_throws :: "jsval option"
  handshake_steps :: "client_step list"

text \<open>The answers of the client during one call of the handle's \<^verbatim>\<open>disconnect\<close>.\<close>

record teardown =
  unsubscribe_throws :: "jsval option"
  disconnect_throws :: "jsval option"

definition throws_or_returns :: "jsval option \<Rightarrow> 'a \<Rightarrow> 'a completion" where
  "throws_or_returns t v = (case t of None \<Rightarrow> Returns v | Some x \<Rightarrow> Throws x)"

subsection \<open>The foreign calls\<close>

definition loadScript :: "jsval \<Rightarrow> host \<Rightarrow> world \<Rightarrow> promise \<times> world" where
  "loadScript ctx h w =
     (Promise (length (filter is_LoadScript (calls w))) (loadScript_result h),
      log (LoadScript ctx) w)"

definition getContext :: "host \<Rightarrow> world \<Rightarrow> auth_context option settle \<times> world" where
  "getContext h w = (getContext_result h, log GetContext w)"

definition new_CometD :: "host \<Rightarrow> world \<Rightarrow> nat completion \<times> world" where
  "new_CometD h w =
     (let c = length (filter is_NewCometD (calls w))
      in (throws_or_returns (new_CometD_throws h) c, log (NewCometD c) w))"

definition cometd_configure :: "nat \<Rightarrow> jsval \<Rightarrow> host \<Rightarrow> world \<Rightarrow> unit completion \<times> world" where
  "cometd_configure c options h w =
     (throws_or_returns (configure_throws h) (), log (Configure c options) w)"

definition cometd_subscribe ::
  "nat \<Rightarrow> jsval \<Rightarrow> jsval \<Rightarrow> jsval completion \<Rightarrow> world \<Rightarrow> jsval completion \<times> world" where
  "cometd_subscribe c ch f answer w = (answer, log (Subscribe c ch f) w)"

definition cometd_unsubscribe :: "nat \<Rightarrow> jsval \<Rightarrow> teardown \<Rightarrow> world \<Rightarrow> unit completion \<times> world" where
  "cometd_unsubscribe c s t w =
     (throws_or_returns (unsubscribe_throws t) (), log (Unsubscribe c s) w)"

definition cometd_disconnect :: "nat \<Rightarrow> jsval \<Rightarrow> teardown \<Rightarrow> world \<Rightarrow> unit completion \<times> world" where
  "cometd_disconnect c a t w =
     (throws_or_returns (disconnect_throws t) (), log (Disconnect c a) w)"

subsection \<open>Statements: sequence and try/catch\<close>

definition seq ::
  "(world \<Rightarrow> unit completion \<times> world) \<Rightarrow> (world \<Rightarrow> unit completion \<times> world) \<Rightarrow>
   world \<Rightarrow> unit completion \<times> world" where
  "seq a b w = (case a w of (Returns u, w') \<Rightarrow> b w' | (Throws x, w') \<Rightarrow> (Throws x, w'))"

definition try_catch ::
  "(world \<Rightarrow> unit completion \<times> world) \<Rightarrow> (jsval \<Rightarrow> world \<Rightarrow> unit completion \<times> world) \<Rightarrow>
   world \<Rightarrow> unit completion \<times> world" where
  "try_catch body handler w =
     (case body w of (Returns u, w') \<Rightarrow> (Returns u, w') | (Throws x, w') \<Rightarrow> handler x w')"

text \<open>The empty catch block of lines 67-69 and 72-74.\<close>

definition ignore :: "jsval \<Rightarrow> world \<Rightarrow> unit completion \<times> world" where
  "ignore x w = (Returns (), w)"

definition skip :: "world \<Rightarrow> unit completion \<times> world" where
  "skip w = (Returns (), w)"

subsection \<open>The module\<close>

text \<open>Lines 11-16. A promise object is truthy, so the test is whether the variable is set.\<close>

definition loadCometd :: "jsval \<Rightarrow> host \<Rightarrow> world \<Rightarrow> promise \<times> world" where
  "loadCometd ctx h w =
     (case scriptPromise w of
        None \<Rightarrow> (let (p, w') = loadScript ctx h w in (p, w'\<lparr>scriptPromise := Some p\<rparr>))
      | Some p \<Rightarrow> (p, w))"

text \<open>
  \<^verbatim>\<open>Promise.all\<close> of two promises: it resolves with both values once both resolve, and
  rejects with the reason of the first promise that rejects.
\<close>

fun promise_all :: "'a settle \<Rightarrow> 'b settle \<Rightarrow> bool \<Rightarrow> ('a \<times> 'b) settle" where
  "promise_all (Resolved a) (Resolved b) first = Resolved (a, b)"
| "promise_all (Rejected r) (Rejected r') first = Rejected (if first then r else r')"
| "promise_all (Rejected r) q first = Rejected r"
| "promise_all p (Rejected r') first = Rejected r'"
| "promise_all p q first = Pending"

text \<open>
  Lines 62-75: the closure \<^verbatim>\<open>disconnect\<close> over \<^verbatim>\<open>cometd\<close> and \<^verbatim>\<open>subscription\<close>; the
  function value \<open>DisconnectFn cometd subscription\<close> stands for it, and calling that value
  runs \<open>disconnect cometd subscription\<close>.
\<close>

definition disconnect :: "nat \<Rightarrow> jsval \<Rightarrow> teardown \<Rightarrow> world \<Rightarrow> unit completion \<times> world" where
  "disconnect cometd subscription t =
     seq (try_catch (if truthy subscription then cometd_unsubscribe cometd subscription t else skip)
            ignore)
         (try_catch (cometd_disconnect cometd (JBool True) t) ignore)"

text \<open>Lines 59-76: the object the promise resolves with.\<close>

definition handle :: "nat \<Rightarrow> jsval \<Rightarrow> jsval" where
  "handle cometd subscription =
     JObj [(''cometd'', JCometD cometd),
           (''subscription'', subscription),
           (''disconnect'', JFun (DisconnectFn cometd subscription))]"

text \<open>
  Lines 53-77: one invocation of the handshake callback, on the promise in state \<open>p\<close>.
  An exception of \<^verbatim>\<open>cometd.subscribe\<close> leaves the callback, with neither \<^verbatim>\<open>resolve\<close> nor
  \<^verbatim>\<open>reject\<close> called.
\<close>

fun handshake_callback ::
  "jsval \<Rightarrow> jsval \<Rightarrow> nat \<Rightarrow> jsval \<Rightarrow> jsval completion \<Rightarrow> jsval settle \<times> world \<Rightarrow>
   unit completion \<times> jsval settle \<times> world" where
  "handshake_callback channel handler cometd status answer (p, w) =
     (if \<not> truthy (opt_get status ''successful'')
      then (Returns (), settle_with (Rejected status) p, w)
      else (case cometd_subscribe cometd channel handler answer w of
              (Throws x, w') \<Rightarrow> (Throws x, p, w')
            | (Returns subscription, w') \<Rightarrow>
                (Returns (), settle_with (Resolved (handle cometd subscription)) p, w')))"

text \<open>
  One step of the client. An exception that leaves \<^verbatim>\<open>handshake()\<close>, its own or one of the
  callback, leaves the executor of line 52, and the promise is rejected with it.
\<close>

fun run_step ::
  "jsval \<Rightarrow> jsval \<Rightarrow> nat \<Rightarrow> client_step \<Rightarrow> jsval settle \<times> world \<Rightarrow> jsval settle \<times> world" where
  "run_step channel handler cometd (HandshakeThrows x) (p, w) = (settle_with (Rejected x) p, w)"
| "run_step channel handler cometd (Invoke status answer escapes) (p, w) =
     (case handshake_callback channel handler cometd status answer (p, w) of
        (Throws x, p', w') \<Rightarrow> (if escapes then settle_with (Rejected x) p' else p', w')
      | (Returns u, p', w') \<Rightarrow> (p', w'))"

fun run_client ::
  "jsval \<Rightarrow> jsval \<Rightarrow> nat \<Rightarrow> client_step list \<Rightarrow> jsval settle \<times> world \<Rightarrow> jsval settle \<times> world" where
  "run_client channel handler cometd [] s = s"
| "run_client channel handler cometd (x # xs) s =
     run_client channel handler cometd xs (run_step channel handler cometd x s)"

text \<open>Whether the callback calls \<^verbatim>\<open>cometd.subscribe\<close> in a step (line 54).\<close>

fun subscribes :: "client_step \<Rightarrow> bool" where
  "subscribes (Invoke status answer escapes) = truthy (opt_get status ''successful'')"
| "subscribes (HandshakeThrows x) = False"

text \<open>
  Lines 52-78: the promise around \<^verbatim>\<open>cometd.handshake\<close>, new and so pending when the
  callback is handed to the client.
\<close>

definition handshake_promise ::
  "jsval \<Rightarrow> jsval \<Rightarrow> nat \<Rightarrow> host \<Rightarrow> world \<Rightarrow> jsval settle \<times> world" where
  "handshake_promise channel handler cometd h w =
     run_client channel handler cometd (handshake_steps h) (Pending, log (Handshake cometd) w)"

text \<open>Lines 44-49: the argument of \<^verbatim>\<open>cometd.configure\<close>.\<close>

definition configuration :: "host \<Rightarrow> string \<Rightarrow> auth_context \<Rightarrow> jsval \<Rightarrow> jsval" where
  "configuration h apiVersion' ctx logLevel' =
     JObj [(''url'', JStr (location_protocol h @ ''//'' @ location_hostname h @
                            ''/cometd/'' @ apiVersion' @ ''/'')),
           (''requestHeaders'',
              JObj [(''Authorization'', JStr (''OAuth '' @ str_of (sessionId ctx)))]),
           (''appendMessageTypeToURL'', JBool False),
           (''logLevel'', logLevel')]"

text \<open>
  Lines 34-79: the callback of \<^verbatim>\<open>then\<close>, run with the fetched context once both
  promises have resolved. An exception inside it rejects the promise \<^verbatim>\<open>then\<close> returned.
  Line 42 reads \<^verbatim>\<open>ctx.apiVersion\<close> of a context that line 38 has found to have a
  session id; on \<^verbatim>\<open>null\<close> the read would throw a TypeError.
\<close>

definition on_ready ::
  "jsval \<Rightarrow> jsval \<Rightarrow> jsval \<Rightarrow> jsval \<Rightarrow> auth_context option \<Rightarrow> host \<Rightarrow> world \<Rightarrow>
   jsval settle \<times> world" where
  "on_ready channel handler logLevel' websocketEnabled' ctx h w =
     (if \<not> truthy (opt_get (opt_get (opt_get (window h) ''org'') ''cometd'') ''CometD'')
      then (Rejected (JError ''CometD library not found on window.''), w)
      else if \<not> truthy_str (opt_sessionId ctx)
      then (Rejected (JError ''CometD init could not resolve session id.''), w)
      else (case ctx of
        None \<Rightarrow> (Rejected (JError ''TypeError''), w)
      | Some c \<Rightarrow>
          (let apiVersion' = (if truthy_str (apiVersion c) then str_of (apiVersion c) else ''65.0'')
           in (case new_CometD h w of
                 (Throws x, w1) \<Rightarrow> (Rejected x, w1)
               | (Returns cometd, w1) \<Rightarrow>
                   (case cometd_configure cometd (configuration h apiVersion' c logLevel') h w1 of
                      (Throws x, w2) \<Rightarrow> (Rejected x, w2)
                    | (Returns u, w2) \<Rightarrow>
                        handshake_promise channel handler cometd h
                          (log (SetWebsocketEnabled cometd websocketEnabled') w2))))))"

text \<open>
  The parameter of \<^verbatim>\<open>initCometD\<close>, lines 18-24: a property that is missing is
  \<^verbatim>\<open>undefined\<close>. (\<open>context\<close> is written \<open>context'\<close>.)
\<close>

record config =
  context' :: jsval
  channel :: jsval
  onMessage :: jsval
  logLevel :: jsval
  websocketEnabled :: jsval

text \<open>
  Lines 18-80. The result is the state of the returned promise, and the state of the module
  and the log, after all the steps of the client (\<open>Pending\<close>: the promise never settles).
\<close>

definition initCometD :: "config \<Rightarrow> host \<Rightarrow> world \<Rightarrow> jsval settle \<times> world" where
  "initCometD cfg h w =
     (if \<not> truthy (context' cfg)
      then (Rejected (JError ''CometD init requires an LWC context.''), w)
      else if \<not> truthy (channel cfg)
      then (Rejected (JError ''CometD init requires a channel.''), w)
      else
        let handler = (if typeof (onMessage cfg) = ''function'' then onMessage cfg else JFun NoopFn);
            (p, w1) = loadCometd (context' cfg) h w;
            (q, w2) = getContext h w1
        in case promise_all (outcome p) q (script_rejects_first h) of
             Pending \<Rightarrow> (Pending, w2)
           | Rejected r \<Rightarrow> (Rejected r, w2)
           | Resolved (u, ctx) \<Rightarrow>
               on_ready (channel cfg) handler
                 (default_to (JStr ''debug'') (logLevel cfg))
                 (default_to (JBool False) (websocketEnabled cfg)) ctx h w2)"

text \<open>
  Successive calls in one module lifetime, each with its own answers of the host. Only
  the synchronous part of a call reads or writes \<^verbatim>\<open>scriptPromise\<close>, so running the calls
  one after the other gives the loader calls of any interleaving.
\<close>

fun run_calls :: "(config \<times> host) list \<Rightarrow> world \<Rightarrow> world" where
  "run_calls [] w = w"
| "run_calls ((cfg, h) # rest) w = run_calls rest (snd (initCometD cfg h w))"

subsection \<open>Sample inputs\<close>

definition sample_window :: jsval where
  "sample_window =
     JObj [(''org'', JObj [(''cometd'', JObj [(''CometD'', JFun (UserFn 0))])])]"

definition sample_host :: host where
  "sample_host =
     \<lparr>loadScript_result = Resolved JUndefined,
      getContext_result = Resolved (Some \<lparr>sessionId = Some ''00Dxx!AQ'', apiVersion = Some ''60.0''\<rparr>),
      script_rejects_first = True,
      window = sample_window,
      location_protocol = ''https:'',
      location_hostname = ''example.my.site.com'',
      new_CometD_throws = None,
      configure_throws = None,
      handshake_steps =
        [Invoke (JObj [(''successful'', JBool True)]) (Returns (JObj [(''id'', JNum 1)])) False]\<rparr>"

definition sample_context :: jsval where
  "sample_context = JObj [(''isConnected'', JBool True)]"

definition sample_config :: config where
  "sample_config =
     \<lparr>context' = sample_context,
      channel = JStr ''/event/Refresh__e'',
      onMessage = JFun (UserFn 1),
      logLevel = JUndefined,
      websocketEnabled = JUndefined\<rparr>"

section \<open>Properties\<close>

subsection \<open>The run of a call, step by step\<close>

lemma calls_log [simp]: "calls (log c w) = calls w @ [c]"
  by (simp add: log_def)

lemma scriptPromise_log [simp]: "scriptPromise (log c w) = scriptPromise w"
  by (simp add: log_def)

lemma loadCometd_cases:
  "loadCometd ctx h w =
     (case scriptPromise w of
        None \<Rightarrow>
          (Promise (length (filter is_LoadScript (calls w))) (loadScript_result h),
           w\<lparr>scriptPromise :=
                Some (Promise (length (filter is_LoadScript (calls w))) (loadScript_result h)),
              calls := calls w @ [LoadScript ctx]\<rparr>)
      | Some p \<Rightarrow> (p, w))"
  by (simp add: loadCometd_def loadScript_def log_def split: option.splits)

lemma calls_loadCometd:
  "calls (snd (loadCometd ctx h w)) =
     calls w @ (if scriptPromise w = None then [LoadScript ctx] else [])"
  by (simp add: loadCometd_cases split: option.splits)

lemma scriptPromise_loadCometd:
  "scriptPromise (snd (loadCometd ctx h w)) = Some (fst (loadCometd ctx h w))"
  by (simp add: loadCometd_cases split: option.splits)

lemma news_loadCometd:
  "filter is_NewCometD (calls (snd (loadCometd ctx h w))) = filter is_NewCometD (calls w)"
  by (simp add: calls_loadCometd)

lemma promise_all_Resolved:
  "promise_all p q b = Resolved (u, v) \<longleftrightarrow> p = Resolved u \<and> q = Resolved v"
  by (cases p; cases q) auto

lemma promise_all_Rejected:
  "promise_all (Rejected r) (Rejected r') b = Rejected (if b then r else r')"
  "\<forall>r'. q \<noteq> Rejected r' \<Longrightarrow> promise_all (Rejected r) q b = Rejected r"
  "\<forall>r. p \<noteq> Rejected r \<Longrightarrow> promise_all p (Rejected r') b = Rejected r'"
  by (cases q; cases p; simp)+

subsection \<open>The steps of the client\<close>

lemma settle_with_simps [simp]:
  "settle_with new Pending = new"
  "settle_with new (Resolved v) = Resolved v"
  "settle_with new (Rejected r) = Rejected r"
  "settle_with Pending p = p"
  by (simp_all add: settle_with_def split: settle.splits)

text \<open>What a step does to the promise, and what it adds to the log.\<close>

lemma run_step_eq:
  "run_step ch f c x (p, w) =
     (settle_with
       (case x of
          HandshakeThrows e \<Rightarrow> Rejected e
        | Invoke st a esc \<Rightarrow>
            if \<not> truthy (opt_get st ''successful'') then Rejected st
            else (case a of
                    Returns s \<Rightarrow> Resolved (handle c s)
                  | Throws e \<Rightarrow> if esc then Rejected e else Pending)) p,
      if subscribes x then w\<lparr>calls := calls w @ [Subscribe c ch f]\<rparr> else w)"
  by (cases x) (simp_all add: cometd_subscribe_def log_def split: completion.splits)

declare run_step.simps [simp del]

lemma snd_run_client:
  "snd (run_client ch f c xs (p, w)) =
     w\<lparr>calls := calls w @ map (\<lambda>x. Subscribe c ch f) (filter subscribes xs)\<rparr>"
  by (induction xs arbitrary: p w) (simp_all add: run_step_eq)

text \<open>How the promise ends up depends on neither the log nor the channel and handler.\<close>

lemma fst_run_client_indep:
  "fst (run_client ch f c xs (p, w)) = fst (run_client ch' g c xs (p, w'))"
  by (induction xs arbitrary: p w w') (simp_all add: run_step_eq)

text \<open>A settled promise stays as it is.\<close>

lemma run_client_settled:
  assumes "p \<noteq> Pending"
  shows "fst (run_client ch f c xs (p, w)) = p"
  using assms
proof (induction xs arbitrary: p w)
  case Nil
  show ?case by simp
next
  case (Cons x xs)
  from Cons.prems have "settle_with new p = p" for new
    by (cases p) simp_all
  with Cons show ?case
    by (simp add: run_step_eq)
qed

text \<open>A first invocation with an unsuccessful status rejects the promise with the status.\<close>

lemma run_client_unsuccessful_first:
  assumes "\<not> truthy (opt_get st ''successful'')"
  shows "fst (run_client ch f c (Invoke st a esc # xs) (Pending, w)) = Rejected st"
  using assms by (simp add: run_step_eq run_client_settled)

text \<open>A promise resolves with the handle of an invocation whose subscribe returned.\<close>

lemma run_client_Resolved:
  assumes "fst (run_client ch f c xs (p, w)) = Resolved v"
  shows "p = Resolved v \<or>
         (\<exists>st s esc. Invoke st (Returns s) esc \<in> set xs \<and> truthy (opt_get st ''successful'') \<and>
            v = handle c s)"
  using assms
proof (induction xs arbitrary: p w)
  case Nil
  then show ?case by simp
next
  case (Cons x xs)
  let ?new = "case x of
          HandshakeThrows e \<Rightarrow> Rejected e
        | Invoke st a esc \<Rightarrow>
            if \<not> truthy (opt_get st ''successful'') then Rejected st
            else (case a of
                    Returns s \<Rightarrow> Resolved (handle c s)
                  | Throws e \<Rightarrow> if esc then Rejected e else Pending)"
  let ?w = "if subscribes x then w\<lparr>calls := calls w @ [Subscribe c ch f]\<rparr> else w"
  have "fst (run_client ch f c xs (settle_with ?new p, ?w)) = Resolved v"
    using Cons.prems by (simp add: run_step_eq)
  from Cons.IH [OF this] show ?case
  proof
    assume p': "settle_with ?new p = Resolved v"
    show ?thesis
    proof (cases "p = Pending")
      case True
      with p' show ?thesis
        by (cases x) (auto split: if_splits completion.splits)
    next
      case False
      then have "settle_with ?new p = p" by (cases p) simp_all
      with p' show ?thesis by simp
    qed
  next
    assume "\<exists>st s esc. Invoke st (Returns s) esc \<in> set xs \<and> truthy (opt_get st ''successful'') \<and>
            v = handle c s"
    then show ?thesis by auto
  qed
qed

text \<open>More precisely, of the first step that settles it.\<close>

lemma run_client_Resolved_first:
  assumes "fst (run_client ch f c xs (Pending, w)) = Resolved v"
  shows "\<exists>before st s esc after. xs = before @ Invoke st (Returns s) esc # after \<and>
           truthy (opt_get st ''successful'') \<and> v = handle c s \<and>
           fst (run_client ch f c before (Pending, w)) = Pending"
  using assms
proof (induction xs arbitrary: w)
  case Nil
  then show ?case by simp
next
  case (Cons x xs)
  let ?new = "case x of
          HandshakeThrows e \<Rightarrow> Rejected e
        | Invoke st a esc \<Rightarrow>
            if \<not> truthy (opt_get st ''successful'') then Rejected st
            else (case a of
                    Returns s \<Rightarrow> Resolved (handle c s)
                  | Throws e \<Rightarrow> if esc then Rejected e else Pending)"
  let ?w = "if subscribes x then w\<lparr>calls := calls w @ [Subscribe c ch f]\<rparr> else w"
  have run: "fst (run_client ch f c xs (?new, ?w)) = Resolved v"
    using Cons.prems by (simp add: run_step_eq)
  show ?case
  proof (cases "?new = Pending")
    case True
    with run have "fst (run_client ch f c xs (Pending, ?w)) = Resolved v"
      by simp
    from Cons.IH [OF this] obtain before st s esc after where
      xs: "xs = before @ Invoke st (Returns s) esc # after" and
      ok: "truthy (opt_get st ''successful'')" "v = handle c s" and
      pending: "fst (run_client ch f c before (Pending, ?w)) = Pending"
      by blast
    have "x # xs = (x # before) @ Invoke st (Returns s) esc # after"
      by (simp add: xs)
    moreover have "fst (run_client ch f c (x # before) (Pending, w)) = Pending"
      using pending True by (simp add: run_step_eq)
    ultimately show ?thesis
      using ok by blast
  next
    case False
    with run have new: "?new = Resolved v"
      by (simp add: run_client_settled)
    then obtain st s esc where "x = Invoke st (Returns s) esc"
      "truthy (opt_get st ''successful'')" "v = handle c s"
      by (cases x) (auto split: if_splits completion.splits)
    then have "x # xs = [] @ Invoke st (Returns s) esc # xs \<and>
           truthy (opt_get st ''successful'') \<and> v = handle c s \<and>
           fst (run_client ch f c [] (Pending, w)) = Pending"
      by simp
    then show ?thesis by blast
  qed
qed

lemma calls_handshake_promise:
  "calls (snd (handshake_promise ch f c h w)) =
     calls w @ Handshake c # map (\<lambda>x. Subscribe c ch f) (filter subscribes (handshake_steps h))"
  by (simp add: handshake_promise_def snd_run_client log_def)

lemma scriptPromise_handshake_promise:
  "scriptPromise (snd (handshake_promise ch f c h w)) = scriptPromise w"
  by (simp add: handshake_promise_def snd_run_client log_def)

subsection \<open>The run of a call\<close>

text \<open>The callback of \<^verbatim>\<open>then\<close> with the calls before the handshake written out.\<close>

lemma on_ready_eq:
  "on_ready ch f lv ws ctx h w =
     (if \<not> truthy (opt_get (opt_get (opt_get (window h) ''org'') ''cometd'') ''CometD'')
      then (Rejected (JError ''CometD library not found on window.''), w)
      else case ctx of
        None \<Rightarrow> (Rejected (JError ''CometD init could not resolve session id.''), w)
      | Some a \<Rightarrow>
          if \<not> truthy_str (sessionId a)
          then (Rejected (JError ''CometD init could not resolve session id.''), w)
          else
            (let c = length (filter is_NewCometD (calls w));
                 opts = configuration h
                     (if truthy_str (apiVersion a) then str_of (apiVersion a) else ''65.0'') a lv
             in (case new_CometD_throws h of
                   Some x \<Rightarrow> (Rejected x, w\<lparr>calls := calls w @ [NewCometD c]\<rparr>)
                 | None \<Rightarrow>
                    (case configure_throws h of
                       Some x \<Rightarrow>
                         (Rejected x, w\<lparr>calls := calls w @ [NewCometD c, Configure c opts]\<rparr>)
                     | None \<Rightarrow>
                         handshake_promise ch f c h
                           (w\<lparr>calls := calls w @ [NewCometD c, Configure c opts,
                                                   SetWebsocketEnabled c ws]\<rparr>)))))"
  by (simp add: on_ready_def new_CometD_def cometd_configure_def throws_or_returns_def log_def Let_def
      split: option.splits)

lemma calls_on_ready:
  "calls (snd (on_ready ch f lv ws ctx h w)) =
     calls w @
     (if \<not> truthy (opt_get (opt_get (opt_get (window h) ''org'') ''cometd'') ''CometD'') then []
      else case ctx of
        None \<Rightarrow> []
      | Some a \<Rightarrow>
          if \<not> truthy_str (sessionId a) then []
          else NewCometD (length (filter is_NewCometD (calls w))) #
            (case new_CometD_throws h of
               Some x \<Rightarrow> []
             | None \<Rightarrow>
                 Configure (length (filter is_NewCometD (calls w)))
                   (configuration h
                      (if truthy_str (apiVersion a) then str_of (apiVersion a) else ''65.0'') a lv) #
                 (case configure_throws h of
                    Some x \<Rightarrow> []
                  | None \<Rightarrow>
                      [SetWebsocketEnabled (length (filter is_NewCometD (calls w))) ws,
                       Handshake (length (filter is_NewCometD (calls w)))] @
                      map (\<lambda>x. Subscribe (length (filter is_NewCometD (calls w))) ch f)
                        (filter subscribes (handshake_steps h)))))"
  by (auto simp: on_ready_eq calls_handshake_promise Let_def split: option.splits)

lemma scriptPromise_on_ready:
  "scriptPromise (snd (on_ready ch f lv ws ctx h w)) = scriptPromise w"
  by (auto simp: on_ready_eq scriptPromise_handshake_promise Let_def split: option.splits)

lemma fst_on_ready:
  "fst (on_ready ch f lv ws ctx h w) =
     (if \<not> truthy (opt_get (opt_get (opt_get (window h) ''org'') ''cometd'') ''CometD'')
      then Rejected (JError ''CometD library not found on window.'')
      else case ctx of
        None \<Rightarrow> Rejected (JError ''CometD init could not resolve session id.'')
      | Some a \<Rightarrow>
          if \<not> truthy_str (sessionId a)
          then Rejected (JError ''CometD init could not resolve session id.'')
          else (case new_CometD_throws h of
            Some x \<Rightarrow> Rejected x
          | None \<Rightarrow>
             (case configure_throws h of
                Some x \<Rightarrow> Rejected x
              | None \<Rightarrow>
                  fst (run_client ch f (length (filter is_NewCometD (calls w)))
                         (handshake_steps h) (Pending, w)))))"
  by (auto simp: on_ready_eq Let_def handshake_promise_def intro: fst_run_client_indep
      split: option.splits)

text \<open>A call that passes the two checks of lines 25-30.\<close>

lemma initCometD_valid:
  assumes "truthy (context' cfg)" "truthy (channel cfg)"
  shows "initCometD cfg h w =
     (let w2 = log GetContext (snd (loadCometd (context' cfg) h w))
      in case promise_all (outcome (fst (loadCometd (context' cfg) h w))) (getContext_result h)
                (script_rejects_first h) of
           Pending \<Rightarrow> (Pending, w2)
         | Rejected r \<Rightarrow> (Rejected r, w2)
         | Resolved (u, ctx) \<Rightarrow>
             on_ready (channel cfg)
               (if typeof (onMessage cfg) = ''function'' then onMessage cfg else JFun NoopFn)
               (default_to (JStr ''debug'') (logLevel cfg))
               (default_to (JBool False) (websocketEnabled cfg)) ctx h w2)"
  using assms
  by (cases "loadCometd (context' cfg) h w") (simp add: initCometD_def getContext_def Let_def)

lemma initCometD_invalid:
  assumes "\<not> (truthy (context' cfg) \<and> truthy (channel cfg))"
  shows "snd (initCometD cfg h w) = w"
  using assms by (auto simp: initCometD_def)

lemma new_calls_initCometD:
  assumes "truthy (context' cfg)" "truthy (channel cfg)"
  shows "new_calls w (snd (initCometD cfg h w)) =
     (if scriptPromise w = None then [LoadScript (context' cfg)] else []) @
     GetContext #
     (case promise_all (outcome (fst (loadCometd (context' cfg) h w))) (getContext_result h)
             (script_rejects_first h) of
        Resolved (u, ctx) \<Rightarrow>
          new_calls (log GetContext (snd (loadCometd (context' cfg) h w)))
            (snd (on_ready (channel cfg)
               (if typeof (onMessage cfg) = ''function'' then onMessage cfg else JFun NoopFn)
               (default_to (JStr ''debug'') (logLevel cfg))
               (default_to (JBool False) (websocketEnabled cfg)) ctx h
               (log GetContext (snd (loadCometd (context' cfg) h w)))))
      | Pending \<Rightarrow> []
      | Rejected r \<Rightarrow> [])"
  using assms
  by (simp add: initCometD_valid Let_def new_calls_def calls_loadCometd calls_on_ready
      split: settle.splits prod.splits)

lemma fst_initCometD:
  assumes "truthy (context' cfg)" "truthy (channel cfg)"
  shows "fst (initCometD cfg h w) =
     (case promise_all (outcome (fst (loadCometd (context' cfg) h w))) (getContext_result h)
             (script_rejects_first h) of
        Resolved (u, ctx) \<Rightarrow>
          fst (on_ready (channel cfg)
               (if typeof (onMessage cfg) = ''function'' then onMessage cfg else JFun NoopFn)
               (default_to (JStr ''debug'') (logLevel cfg))
               (default_to (JBool False) (websocketEnabled cfg)) ctx h
               (log GetContext (snd (loadCometd (context' cfg) h w))))
      | Pending \<Rightarrow> Pending
      | Rejected r \<Rightarrow> Rejected r)"
  using assms
  by (simp add: initCometD_valid Let_def split: settle.splits prod.splits)

text \<open>A call that adds anything to the log has passed the two checks.\<close>

lemma new_calls_valid:
  assumes "initCometD cfg h w = (out, w')" and "e \<in> set (new_calls w w')"
  shows "truthy (context' cfg) \<and> truthy (channel cfg)"
  using assms by (auto simp: initCometD_def new_calls_def split: if_splits)

text \<open>A call that reaches \<^verbatim>\<open>cometd.handshake\<close>: every foreign call it makes, in order.\<close>

lemma handshake_reached:
  assumes "initCometD cfg h w = (out, w')" and "Handshake c \<in> set (new_calls w w')"
  shows "\<exists>a u. getContext_result h = Resolved (Some a) \<and> truthy_str (sessionId a) \<and>
           outcome (fst (loadCometd (context' cfg) h w)) = Resolved u \<and>
           truthy (opt_get (opt_get (opt_get (window h) ''org'') ''cometd'') ''CometD'') \<and>
           new_CometD_throws h = None \<and> configure_throws h = None \<and>
           c = length (filter is_NewCometD (calls w)) \<and>
           new_calls w w' =
             (if scriptPromise w = None then [LoadScript (context' cfg)] else []) @
             [GetContext, NewCometD c,
              Configure c (configuration h
                 (if truthy_str (apiVersion a) then str_of (apiVersion a) else ''65.0'') a
                 (default_to (JStr ''debug'') (logLevel cfg))),
              SetWebsocketEnabled c (default_to (JBool False) (websocketEnabled cfg)),
              Handshake c] @
             map (\<lambda>x. Subscribe c (channel cfg)
                        (if typeof (onMessage cfg) = ''function'' then onMessage cfg
                         else JFun NoopFn))
               (filter subscribes (handshake_steps h)) \<and>
           out = fst (run_client (channel cfg)
                        (if typeof (onMessage cfg) = ''function'' then onMessage cfg
                         else JFun NoopFn) c (handshake_steps h) (Pending, w))"
proof -
  have valid: "truthy (context' cfg)" "truthy (channel cfg)"
    using new_calls_valid [OF assms] by simp_all
  have w': "w' = snd (initCometD cfg h w)" and out: "out = fst (initCometD cfg h w)"
    using assms(1) by simp_all
  let ?p = "promise_all (outcome (fst (loadCometd (context' cfg) h w))) (getContext_result h)
             (script_rejects_first h)"
  let ?w2 = "log GetContext (snd (loadCometd (context' cfg) h w))"
  let ?f = "if typeof (onMessage cfg) = ''function'' then onMessage cfg else JFun NoopFn"
  have reached: "Handshake c \<in> set (new_calls w (snd (initCometD cfg h w)))"
    using assms(2) by (simp add: w')
  obtain u ctx where p: "?p = Resolved (u, ctx)"
    using reached unfolding new_calls_initCometD [OF valid]
    by (cases ?p) (auto split: if_splits)
  then have gc: "getContext_result h = Resolved ctx"
    and ld: "outcome (fst (loadCometd (context' cfg) h w)) = Resolved u"
    by (simp_all add: promise_all_Resolved)
  have nc: "new_calls w w' =
     (if scriptPromise w = None then [LoadScript (context' cfg)] else []) @
     GetContext #
     new_calls ?w2
            (snd (on_ready (channel cfg) ?f
               (default_to (JStr ''debug'') (logLevel cfg))
               (default_to (JBool False) (websocketEnabled cfg)) ctx h ?w2))"
    unfolding w' new_calls_initCometD [OF valid] by (simp add: p)
  have "Handshake c \<in> set (new_calls ?w2
            (snd (on_ready (channel cfg) ?f
               (default_to (JStr ''debug'') (logLevel cfg))
               (default_to (JBool False) (websocketEnabled cfg)) ctx h ?w2)))"
    using assms(2) nc by (auto split: if_splits)
  then obtain a where a: "ctx = Some a" "truthy_str (sessionId a)"
    and c: "c = length (filter is_NewCometD (calls w))"
    and ok: "new_CometD_throws h = None" "configure_throws h = None"
      "truthy (opt_get (opt_get (opt_get (window h) ''org'') ''cometd'') ''CometD'')"
    by (auto simp: new_calls_def calls_on_ready news_loadCometd
        split: if_splits option.splits)
  have "out = fst (run_client (channel cfg) ?f c (handshake_steps h) (Pending, ?w2))"
    by (simp add: out fst_initCometD [OF valid] p fst_on_ready a c ok news_loadCometd)
  then have run: "out = fst (run_client (channel cfg) ?f c (handshake_steps h) (Pending, w))"
    using fst_run_client_indep [of "channel cfg" ?f c "handshake_steps h" Pending ?w2
        "channel cfg" ?f w]
    by simp
  have "new_calls w w' =
             (if scriptPromise w = None then [LoadScript (context' cfg)] else []) @
             [GetContext, NewCometD c,
              Configure c (configuration h
                 (if truthy_str (apiVersion a) then str_of (apiVersion a) else ''65.0'') a
                 (default_to (JStr ''debug'') (logLevel cfg))),
              SetWebsocketEnabled c (default_to (JBool False) (websocketEnabled cfg)),
              Handshake c] @
             map (\<lambda>x. Subscribe c (channel cfg) ?f) (filter subscribes (handshake_steps h))"
    unfolding nc
    by (simp add: new_calls_def calls_on_ready news_loadCometd a c ok)
  with gc ld a c ok run show ?thesis
    by blast
qed

text \<open>A call whose promise resolves has reached the handshake.\<close>

lemma resolved_reaches:
  assumes "initCometD cfg h w = (Resolved v, w')"
  shows "Handshake (length (filter is_NewCometD (calls w))) \<in> set (new_calls w w')"
proof -
  have valid: "truthy (context' cfg)" "truthy (channel cfg)"
    using assms by (auto simp: initCometD_def split: if_splits)
  have w': "w' = snd (initCometD cfg h w)" and out: "fst (initCometD cfg h w) = Resolved v"
    using assms by simp_all
  let ?p = "promise_all (outcome (fst (loadCometd (context' cfg) h w))) (getContext_result h)
             (script_rejects_first h)"
  obtain u ctx where p: "?p = Resolved (u, ctx)"
    using out unfolding fst_initCometD [OF valid]
    by (cases ?p) auto
  from out obtain a where "ctx = Some a" "truthy_str (sessionId a)"
    "new_CometD_throws h = None" "configure_throws h = None"
    "truthy (opt_get (opt_get (opt_get (window h) ''org'') ''cometd'') ''CometD'')"
    unfolding fst_initCometD [OF valid] p
    by (auto simp: fst_on_ready split: if_splits option.splits)
  then show ?thesis
    unfolding w' new_calls_initCometD [OF valid] p
    by (simp add: new_calls_def calls_on_ready news_loadCometd)
qed

text \<open>A call whose promise resolves: its handle and its calls.\<close>

lemma initCometD_Resolved:
  assumes "initCometD cfg h w = (Resolved v, w')"
  shows "\<exists>c s st esc opts f. v = handle c s \<and>
           Invoke st (Returns s) esc \<in> set (handshake_steps h) \<and>
           truthy (opt_get st ''successful'') \<and>
           new_calls w w' = (if scriptPromise w = None then [LoadScript (context' cfg)] else []) @
             [GetContext, NewCometD c, Configure c opts,
              SetWebsocketEnabled c (default_to (JBool False) (websocketEnabled cfg)),
              Handshake c] @
             map (\<lambda>x. Subscribe c (channel cfg) f) (filter subscribes (handshake_steps h))"
proof -
  let ?c = "length (filter is_NewCometD (calls w))"
  let ?f = "if typeof (onMessage cfg) = ''function'' then onMessage cfg else JFun NoopFn"
  from handshake_reached [OF assms resolved_reaches [OF assms]] obtain a where
    nc: "new_calls w w' =
             (if scriptPromise w = None then [LoadScript (context' cfg)] else []) @
             [GetContext, NewCometD ?c,
              Configure ?c (configuration h
                 (if truthy_str (apiVersion a) then str_of (apiVersion a) else ''65.0'') a
                 (default_to (JStr ''debug'') (logLevel cfg))),
              SetWebsocketEnabled ?c (default_to (JBool False) (websocketEnabled cfg)),
              Handshake ?c] @
             map (\<lambda>x. Subscribe ?c (channel cfg) ?f) (filter subscribes (handshake_steps h))"
    and out: "Resolved v = fst (run_client (channel cfg) ?f ?c (handshake_steps h) (Pending, w))"
    by blast
  from run_client_Resolved [OF out [symmetric]] obtain st s esc where
    "Invoke st (Returns s) esc \<in> set (handshake_steps h)" "truthy (opt_get st ''successful'')"
    "v = handle ?c s"
    by auto
  with nc show ?thesis by blast
qed

text \<open>The handle of a resolved call is that of the first step of the client to settle.\<close>

lemma initCometD_Resolved_first:
  assumes "initCometD cfg h w = (Resolved v, w')"
  shows "\<exists>before st s esc after.
           handshake_steps h = before @ Invoke st (Returns s) esc # after \<and>
           truthy (opt_get st ''successful'') \<and>
           v = handle (length (filter is_NewCometD (calls w))) s \<and>
           fst (run_client (channel cfg)
                  (if typeof (onMessage cfg) = ''function'' then onMessage cfg else JFun NoopFn)
                  (length (filter is_NewCometD (calls w))) before (Pending, w)) = Pending"
proof -
  from handshake_reached [OF assms resolved_reaches [OF assms]]
  have "Resolved v = fst (run_client (channel cfg)
                  (if typeof (onMessage cfg) = ''function'' then onMessage cfg else JFun NoopFn)
                  (length (filter is_NewCometD (calls w))) (handshake_steps h) (Pending, w))"
    by blast
  from run_client_Resolved_first [OF this [symmetric]] show ?thesis .
qed

lemma module_init_sel [simp]:
  "calls module_init = []" "scriptPromise module_init = None"
  by (simp_all add: module_init_def)

lemma truthy_sample_context [simp]: "truthy sample_context"
  by (simp add: sample_context_def)

lemma sample_config_sel [simp]:
  "context' sample_config = sample_context"
  "channel sample_config = JStr ''/event/Refresh__e''"
  "onMessage sample_config = JFun (UserFn 1)"
  "logLevel sample_config = JUndefined"
  "websocketEnabled sample_config = JUndefined"
  by (simp_all add: sample_config_def)

lemma truthy_sample_window:
  "truthy (opt_get (opt_get (opt_get sample_window ''org'') ''cometd'') ''CometD'')"
  by (simp add: sample_window_def opt_get_def)

lemmas run_defs = initCometD_def on_ready_def handshake_promise_def run_step_eq
  loadCometd_def loadScript_def getContext_def new_CometD_def cometd_configure_def
  throws_or_returns_def opt_get_def default_to_def log_def Let_def

lemma sample_run:
  "initCometD sample_config sample_host module_init =
     (Resolved (handle 0 (JObj [(''id'', JNum 1)])),
      \<lparr>scriptPromise = Some (Promise 0 (Resolved JUndefined)),
       calls = [LoadScript sample_context, GetContext, NewCometD 0,
                Configure 0 (configuration sample_host ''60.0''
                  \<lparr>sessionId = Some ''00Dxx!AQ'', apiVersion = Some ''60.0''\<rparr> (JStr ''debug'')),
                SetWebsocketEnabled 0 (JBool False), Handshake 0,
                Subscribe 0 (JStr ''/event/Refresh__e'') (JFun (UserFn 1))]\<rparr>)"
  by (simp add: run_defs sample_config_def sample_host_def module_init_def sample_window_def)

lemma filter_Subscribes [simp]:
  "filter is_LoadScript (map (\<lambda>x. Subscribe c ch f) xs) = []"
  "filter is_GetContext (map (\<lambda>x. Subscribe c ch f) xs) = []"
  "filter is_NewCometD (map (\<lambda>x. Subscribe c ch f) xs) = []"
  "filter is_Handshake (map (\<lambda>x. Subscribe c ch f) xs) = []"
  "filter is_Subscribe (map (\<lambda>x. Subscribe c ch f) xs) = map (\<lambda>x. Subscribe c ch f) xs"
  by (induction xs) simp_all

subsection \<open>The resolved handle\<close>

text \<open>
  C1. Every call of \<^verbatim>\<open>initCometD\<close> that resolves is claimed to resolve with a handle
  \<open>{connection, subscription, disconnect}\<close> that exposes the two methods \<^verbatim>\<open>unsubscribe\<close>
  and \<^verbatim>\<open>disconnect\<close>. The code resolves with an object of exactly the three properties
  \<^verbatim>\<open>cometd\<close> (the client instance), \<^verbatim>\<open>subscription\<close> (what \<^verbatim>\<open>cometd.subscribe\<close>
  returned in an invocation of the callback with a successful status) and
  \<^verbatim>\<open>disconnect\<close> (a function): reading \<^verbatim>\<open>unsubscribe\<close> from it, as the usage examples of
  the README do, gives \<^verbatim>\<open>undefined\<close>.
\<close>

theorem resolved_handle_has_no_unsubscribe:
  assumes "initCometD cfg h w = (Resolved v, w')"
  shows "own_keys v = [''cometd'', ''subscription'', ''disconnect''] \<and>
         typeof (get_prop v ''cometd'') = ''object'' \<and>
         (\<exists>st esc. Invoke st (Returns (get_prop v ''subscription'')) esc \<in> set (handshake_steps h) \<and>
            truthy (opt_get st ''successful'')) \<and>
         typeof (get_prop v ''disconnect'') = ''function'' \<and>
         typeof (get_prop v ''unsubscribe'') = ''undefined''"
proof -
  from initCometD_Resolved [OF assms] obtain c s st esc where "v = handle c s"
    and "Invoke st (Returns s) esc \<in> set (handshake_steps h)"
    and "truthy (opt_get st ''successful'')"
    by blast
  then show ?thesis
    by (auto simp: handle_def)
qed

theorem resolved_handle_has_no_unsubscribe_witness:
  "fst (initCometD sample_config sample_host module_init) =
     Resolved (handle 0 (JObj [(''id'', JNum 1)])) \<and>
   own_keys (handle 0 (JObj [(''id'', JNum 1)])) = [''cometd'', ''subscription'', ''disconnect''] \<and>
   typeof (get_prop (handle 0 (JObj [(''id'', JNum 1)])) ''disconnect'') = ''function'' \<and>
   typeof (get_prop (handle 0 (JObj [(''id'', JNum 1)])) ''unsubscribe'') = ''undefined''"
  using resolved_handle_has_no_unsubscribe [OF sample_run]
  by (simp add: sample_run)

subsection \<open>The checks of the configuration\<close>

text \<open>
  C2, as claimed: a call whose \<^verbatim>\<open>context\<close> is absent or empty returns a promise rejected
  with \<open>CometD init requires an LWC context.\<close> and loads no script and fetches no context.
  The check of line 25 is \<^verbatim>\<open>!context\<close>, and an object is truthy: with the empty object
  for \<^verbatim>\<open>context\<close> the call passes the check, calls \<^verbatim>\<open>loadScript\<close> and \<^verbatim>\<open>getContext\<close>, and
  here resolves.
\<close>

theorem empty_object_context_passes:
  "own_keys (JObj []) = [] \<and>
   fst (initCometD (sample_config\<lparr>context' := JObj []\<rparr>) sample_host module_init) =
     Resolved (handle 0 (JObj [(''id'', JNum 1)])) \<and>
   fst (initCometD (sample_config\<lparr>context' := JObj []\<rparr>) sample_host module_init) \<noteq>
     Rejected (JError ''CometD init requires an LWC context.'') \<and>
   take 2 (calls (snd (initCometD (sample_config\<lparr>context' := JObj []\<rparr>) sample_host module_init))) =
     [LoadScript (JObj []), GetContext]"
  by (simp add: run_defs sample_config_def sample_host_def module_init_def sample_window_def)

text \<open>
  C2, amended. For a configuration object whose \<^verbatim>\<open>context\<close> is falsy (\<^verbatim>\<open>undefined\<close>,
  \<^verbatim>\<open>null\<close>, \<^verbatim>\<open>false\<close>, 0, the empty string) the call returns a promise rejected with the
  error \<open>CometD init requires an LWC context.\<close>; for one with a truthy \<^verbatim>\<open>context\<close> and a
  falsy \<^verbatim>\<open>channel\<close>, a promise rejected with \<open>CometD init requires a channel.\<close>; in both
  cases the state is unchanged and no foreign call is made: no script load, no context
  fetch. Every object is truthy, the one without properties too.
\<close>

theorem initCometD_requires_context_and_channel:
  "(\<not> truthy (context' cfg) \<longrightarrow>
      initCometD cfg h w = (Rejected (JError ''CometD init requires an LWC context.''), w)) \<and>
   (truthy (context' cfg) \<and> \<not> truthy (channel cfg) \<longrightarrow>
      initCometD cfg h w = (Rejected (JError ''CometD init requires a channel.''), w)) \<and>
   (\<not> truthy (context' cfg) \<or> \<not> truthy (channel cfg) \<longrightarrow>
      new_calls w (snd (initCometD cfg h w)) = [] \<and>
      filter is_LoadScript (new_calls w (snd (initCometD cfg h w))) = [] \<and>
      filter is_GetContext (new_calls w (snd (initCometD cfg h w))) = []) \<and>
   \<not> truthy JUndefined \<and> \<not> truthy JNull \<and> \<not> truthy (JBool False) \<and> \<not> truthy (JNum 0) \<and>
   \<not> truthy (JStr []) \<and> truthy (JObj kvs)"
  by (simp add: initCometD_def new_calls_def)

theorem initCometD_requires_context_and_channel_witness:
  "initCometD (sample_config\<lparr>context' := JUndefined\<rparr>) sample_host module_init =
     (Rejected (JError ''CometD init requires an LWC context.''), module_init) \<and>
   initCometD (sample_config\<lparr>channel := JStr ''''\<rparr>) sample_host module_init =
     (Rejected (JError ''CometD init requires a channel.''), module_init) \<and>
   new_calls module_init
     (snd (initCometD (sample_config\<lparr>channel := JStr ''''\<rparr>) sample_host module_init)) = []"
  using initCometD_requires_context_and_channel
          [of "sample_config\<lparr>context' := JUndefined\<rparr>" sample_host module_init]
        initCometD_requires_context_and_channel
          [of "sample_config\<lparr>channel := JStr ''''\<rparr>" sample_host module_init]
  by (simp add: sample_config_def new_calls_def)

subsection \<open>The closure disconnect\<close>

lemma disconnect_runs:
  "disconnect c s t w =
     (Returns (), w\<lparr>calls := calls w @ (if truthy s then [Unsubscribe c s] else []) @
                                    [Disconnect c (JBool True)]\<rparr>)"
  by (simp add: disconnect_def seq_def try_catch_def ignore_def skip_def cometd_unsubscribe_def
      cometd_disconnect_def throws_or_returns_def log_def split: option.splits)

text \<open>
  C3. The \<^verbatim>\<open>disconnect\<close> of a resolved handle never throws. It is the closure over the
  instance and the subscription of the handle, and whatever the client does (each of its
  two calls may throw anything), the closure returns normally, having called
  \<^verbatim>\<open>cometd.unsubscribe(subscription)\<close> (when the subscription is truthy) and after it
  \<^verbatim>\<open>cometd.disconnect(true)\<close>: an exception of either call is caught and ignored, and
  one of \<^verbatim>\<open>unsubscribe\<close> does not keep \<^verbatim>\<open>disconnect\<close> from being called.
\<close>

theorem disconnect_never_throws:
  assumes "initCometD cfg h w = (Resolved v, w')"
  shows "\<exists>c s. get_prop v ''disconnect'' = JFun (DisconnectFn c s) \<and>
           get_prop v ''cometd'' = JCometD c \<and> get_prop v ''subscription'' = s \<and>
           (\<exists>st esc. Invoke st (Returns s) esc \<in> set (handshake_steps h) \<and>
              truthy (opt_get st ''successful'')) \<and>
           (\<forall>t w0. disconnect c s t w0 =
              (Returns (),
               w0\<lparr>calls := calls w0 @ (if truthy s then [Unsubscribe c s] else []) @
                                       [Disconnect c (JBool True)]\<rparr>))"
proof -
  from initCometD_Resolved [OF assms] obtain c s st esc where v: "v = handle c s"
    and s: "Invoke st (Returns s) esc \<in> set (handshake_steps h)"
      "truthy (opt_get st ''successful'')"
    by blast
  then show ?thesis
    by (auto simp: handle_def disconnect_runs)
qed

theorem disconnect_never_throws_witness:
  "get_prop (handle 0 (JObj [(''id'', JNum 1)])) ''disconnect'' =
     JFun (DisconnectFn 0 (JObj [(''id'', JNum 1)])) \<and>
   disconnect 0 (JObj [(''id'', JNum 1)])
     \<lparr>unsubscribe_throws = Some (JError ''closed''), disconnect_throws = Some (JError ''closed'')\<rparr>
     module_init =
   (Returns (),
    \<lparr>scriptPromise = None,
     calls = [Unsubscribe 0 (JObj [(''id'', JNum 1)]), Disconnect 0 (JBool True)]\<rparr>)"
proof -
  from disconnect_never_throws [OF sample_run] obtain c s where
    d: "get_prop (handle 0 (JObj [(''id'', JNum 1)])) ''disconnect'' = JFun (DisconnectFn c s)" and
    run: "\<forall>t w0. disconnect c s t w0 =
              (Returns (),
               w0\<lparr>calls := calls w0 @ (if truthy s then [Unsubscribe c s] else []) @
                                       [Disconnect c (JBool True)]\<rparr>)"
    by blast
  from d have cs: "c = 0" "s = JObj [(''id'', JNum 1)]"
    by (simp_all add: handle_def)
  from d run show ?thesis
    unfolding cs by (simp add: module_init_def)
qed

subsection \<open>The connection of a successful call\<close>

text \<open>
  C4, as claimed: a call whose promise resolves has created exactly one subscription. The
  callback of lines 53-77 subscribes in every invocation with a successful status, and the
  client invokes it again on a later handshake: with two successful invocations the call
  has subscribed twice, and its handle holds the subscription of the first.
\<close>

theorem resubscribes_on_second_handshake:
  "fst (initCometD sample_config
          (sample_host\<lparr>handshake_steps :=
             [Invoke (JObj [(''successful'', JBool True)]) (Returns (JObj [(''id'', JNum 1)])) False,
              Invoke (JObj [(''successful'', JBool True)]) (Returns (JObj [(''id'', JNum 2)])) False]\<rparr>)
          module_init) =
     Resolved (handle 0 (JObj [(''id'', JNum 1)])) \<and>
   filter is_Subscribe (calls (snd (initCometD sample_config
          (sample_host\<lparr>handshake_steps :=
             [Invoke (JObj [(''successful'', JBool True)]) (Returns (JObj [(''id'', JNum 1)])) False,
              Invoke (JObj [(''successful'', JBool True)]) (Returns (JObj [(''id'', JNum 2)])) False]\<rparr>)
          module_init))) =
     [Subscribe 0 (JStr ''/event/Refresh__e'') (JFun (UserFn 1)),
      Subscribe 0 (JStr ''/event/Refresh__e'') (JFun (UserFn 1))]"
  by (simp add: run_defs sample_config_def sample_host_def module_init_def sample_window_def)

text \<open>
  C4, amended. A call whose promise resolves has constructed exactly one CometD instance
  and called \<^verbatim>\<open>handshake\<close> on it exactly once. It has called \<^verbatim>\<open>subscribe\<close> once for each
  invocation of the handshake callback with a successful status, which is at least once,
  and exactly once when there is one such invocation; every one of these calls is on
  that instance, with the \<^verbatim>\<open>channel\<close> of the configuration and the same handler. The
  handle keeps the subscription of the invocation that resolved the promise, the first
  step of the client to settle it.
\<close>

theorem initCometD_single_connection:
  assumes "initCometD cfg h w = (Resolved v, w')"
  shows "\<exists>c f. filter is_NewCometD (new_calls w w') = [NewCometD c] \<and>
           filter is_Handshake (new_calls w w') = [Handshake c] \<and>
           filter is_Subscribe (new_calls w w') =
             replicate (length (filter subscribes (handshake_steps h)))
               (Subscribe c (channel cfg) f) \<and>
           1 \<le> length (filter subscribes (handshake_steps h)) \<and>
           (length (filter subscribes (handshake_steps h)) = 1 \<longrightarrow>
              filter is_Subscribe (new_calls w w') = [Subscribe c (channel cfg) f]) \<and>
           get_prop v ''cometd'' = JCometD c \<and>
           (\<exists>before st esc after.
              handshake_steps h =
                before @ Invoke st (Returns (get_prop v ''subscription'')) esc # after \<and>
              truthy (opt_get st ''successful'') \<and>
              fst (run_client (channel cfg) f c before (Pending, w)) = Pending)"
proof -
  from initCometD_Resolved [OF assms] obtain c s st esc opts f where
    v: "v = handle c s" and
    inv: "Invoke st (Returns s) esc \<in> set (handshake_steps h)" "truthy (opt_get st ''successful'')" and
    nc: "new_calls w w' = (if scriptPromise w = None then [LoadScript (context' cfg)] else []) @
             [GetContext, NewCometD c, Configure c opts,
              SetWebsocketEnabled c (default_to (JBool False) (websocketEnabled cfg)),
              Handshake c] @
             map (\<lambda>x. Subscribe c (channel cfg) f) (filter subscribes (handshake_steps h))"
    by blast
  from inv have "Invoke st (Returns s) esc \<in> set (filter subscribes (handshake_steps h))"
    by simp
  then have "filter subscribes (handshake_steps h) \<noteq> []"
    by (metis empty_iff empty_set)
  then have one: "1 \<le> length (filter subscribes (handshake_steps h))"
    by (cases "filter subscribes (handshake_steps h)") simp_all
  have subs: "filter is_Subscribe (new_calls w w') =
      replicate (length (filter subscribes (handshake_steps h))) (Subscribe c (channel cfg) f)"
    unfolding nc by (simp add: map_replicate_const)
  have "length (filter subscribes (handshake_steps h)) = 1 \<longrightarrow>
      filter is_Subscribe (new_calls w w') = [Subscribe c (channel cfg) f]"
    unfolding subs by simp
  moreover have "filter is_NewCometD (new_calls w w') = [NewCometD c]"
    and "filter is_Handshake (new_calls w w') = [Handshake c]"
    unfolding nc by simp_all
  moreover have "\<exists>before st esc after.
              handshake_steps h =
                before @ Invoke st (Returns (get_prop v ''subscription'')) esc # after \<and>
              truthy (opt_get st ''successful'') \<and>
              fst (run_client (channel cfg) f c before (Pending, w)) = Pending"
  proof -
    let ?k = "length (filter is_NewCometD (calls w))"
    let ?g = "if typeof (onMessage cfg) = ''function'' then onMessage cfg else JFun NoopFn"
    from initCometD_Resolved_first [OF assms] obtain before st s' esc after where
      first: "handshake_steps h = before @ Invoke st (Returns s') esc # after"
        "truthy (opt_get st ''successful'')"
      and handle: "v = handle ?k s'"
      and pending: "fst (run_client (channel cfg) ?g ?k before (Pending, w)) = Pending"
      by blast
    from handle v have k: "?k = c" and s': "s' = get_prop v ''subscription''"
      by (simp_all add: handle_def)
    have "fst (run_client (channel cfg) f c before (Pending, w)) =
          fst (run_client (channel cfg) ?g c before (Pending, w))"
      by (rule fst_run_client_indep)
    with pending have "fst (run_client (channel cfg) f c before (Pending, w)) = Pending"
      unfolding k by simp
    with first s' show ?thesis by blast
  qed
  ultimately show ?thesis
    using one subs v by (intro exI [of _ c] exI [of _ f]) (simp add: handle_def)
qed

theorem initCometD_single_connection_witness:
  "filter is_NewCometD
     (new_calls module_init (snd (initCometD sample_config sample_host module_init))) =
     [NewCometD 0] \<and>
   filter is_Handshake
     (new_calls module_init (snd (initCometD sample_config sample_host module_init))) =
     [Handshake 0] \<and>
   filter is_Subscribe
     (new_calls module_init (snd (initCometD sample_config sample_host module_init))) =
     [Subscribe 0 (JStr ''/event/Refresh__e'') (JFun (UserFn 1))]"
  using initCometD_single_connection [OF sample_run]
  by (simp add: sample_run new_calls_def)

subsection \<open>The module variable scriptPromise\<close>

lemma loads_on_ready:
  "filter is_LoadScript (calls (snd (on_ready ch f lv ws ctx h w))) =
     filter is_LoadScript (calls w)"
  by (simp add: calls_on_ready split: option.splits)

lemma scriptPromise_initCometD:
  "scriptPromise (snd (initCometD cfg h w)) =
     (case scriptPromise w of
        Some p \<Rightarrow> Some p
      | None \<Rightarrow>
          if truthy (context' cfg) \<and> truthy (channel cfg)
          then Some (Promise (length (filter is_LoadScript (calls w))) (loadScript_result h))
          else None)"
proof (cases "truthy (context' cfg) \<and> truthy (channel cfg)")
  case True
  then show ?thesis
    by (simp add: initCometD_valid Let_def scriptPromise_on_ready loadCometd_cases
        split: settle.splits prod.splits option.splits)
next
  case False
  then show ?thesis
    by (simp add: initCometD_invalid split: option.splits)
qed

lemma loads_initCometD:
  "filter is_LoadScript (calls (snd (initCometD cfg h w))) =
     filter is_LoadScript (calls w) @
       (if scriptPromise w = None \<and> truthy (context' cfg) \<and> truthy (channel cfg)
        then [LoadScript (context' cfg)] else [])"
proof (cases "truthy (context' cfg) \<and> truthy (channel cfg)")
  case True
  then show ?thesis
    by (simp add: initCometD_valid Let_def loads_on_ready calls_loadCometd
        split: settle.splits prod.splits)
next
  case False
  then show ?thesis
    by (simp add: initCometD_invalid)
qed

text \<open>Once the variable is set, no later call changes it or calls the loader.\<close>

lemma run_calls_set:
  assumes "scriptPromise w = Some p"
  shows "scriptPromise (run_calls cs w) = Some p \<and>
         filter is_LoadScript (calls (run_calls cs w)) = filter is_LoadScript (calls w)"
  using assms
proof (induction cs arbitrary: w)
  case Nil
  then show ?case by simp
next
  case (Cons a cs)
  obtain cfg h where a: "a = (cfg, h)" by (cases a)
  let ?w = "snd (initCometD cfg h w)"
  have "scriptPromise ?w = Some p"
    using Cons.prems by (simp add: scriptPromise_initCometD)
  moreover have "filter is_LoadScript (calls ?w) = filter is_LoadScript (calls w)"
    using Cons.prems by (simp add: loads_initCometD)
  ultimately show ?case
    using Cons.IH [of ?w] by (simp add: a)
qed

lemma run_calls_unset:
  assumes "scriptPromise w = None"
  shows "length (filter is_LoadScript (calls (run_calls cs w))) \<le>
         Suc (length (filter is_LoadScript (calls w)))"
  using assms
proof (induction cs arbitrary: w)
  case Nil
  then show ?case by simp
next
  case (Cons a cs)
  obtain cfg h where a: "a = (cfg, h)" by (cases a)
  let ?w = "snd (initCometD cfg h w)"
  show ?case
  proof (cases "scriptPromise ?w")
    case None
    then have "filter is_LoadScript (calls ?w) = filter is_LoadScript (calls w)"
      using Cons.prems by (simp add: loads_initCometD scriptPromise_initCometD split: if_splits)
    with Cons.IH [OF None] show ?thesis by (simp add: a)
  next
    case (Some p)
    have "length (filter is_LoadScript (calls ?w)) \<le> Suc (length (filter is_LoadScript (calls w)))"
      by (simp add: loads_initCometD)
    with run_calls_set [OF Some, of cs] show ?thesis by (simp add: a)
  qed
qed

text \<open>
  C5, as claimed: no call of \<^verbatim>\<open>initCometD\<close> changes state that outlives it, so the
  module holds no state across calls. It does: the first call that passes the checks of the
  configuration sets the module variable \<^verbatim>\<open>scriptPromise\<close>, which every later call reads.
\<close>

theorem scriptPromise_outlives_call:
  "scriptPromise module_init = None \<and>
   scriptPromise (snd (initCometD sample_config sample_host module_init)) =
     Some (Promise 0 (Resolved JUndefined)) \<and>
   scriptPromise (snd (initCometD sample_config sample_host module_init)) \<noteq>
     scriptPromise module_init"
  by (simp add: sample_run)

text \<open>
  C5, amended. The only module state is \<^verbatim>\<open>scriptPromise\<close>. A call leaves it as it is when
  it is already set, and when the call fails a check of the configuration; otherwise the
  call sets it to the promise the host's loader returned, which is no part of the
  configuration record: the record itself is not kept.
\<close>

theorem initCometD_keeps_only_scriptPromise:
  "(\<forall>p. scriptPromise w = Some p \<longrightarrow> scriptPromise (snd (initCometD cfg h w)) = Some p) \<and>
   (scriptPromise w = None \<and> \<not> (truthy (context' cfg) \<and> truthy (channel cfg)) \<longrightarrow>
      scriptPromise (snd (initCometD cfg h w)) = None) \<and>
   (scriptPromise w = None \<and> truthy (context' cfg) \<and> truthy (channel cfg) \<longrightarrow>
      scriptPromise (snd (initCometD cfg h w)) = Some (fst (loadScript (context' cfg) h w)))"
  by (simp add: scriptPromise_initCometD loadScript_def)

theorem initCometD_keeps_only_scriptPromise_witness:
  "scriptPromise (snd (initCometD sample_config sample_host module_init)) =
     Some (fst (loadScript sample_context sample_host module_init)) \<and>
   scriptPromise
     (snd (initCometD (sample_config\<lparr>channel := JStr ''/event/Other__e''\<rparr>) sample_host
            (snd (initCometD sample_config sample_host module_init)))) =
     Some (Promise 0 (Resolved JUndefined)) \<and>
   scriptPromise (snd (initCometD (sample_config\<lparr>channel := JNull\<rparr>) sample_host module_init)) =
     None"
  using initCometD_keeps_only_scriptPromise [of module_init sample_config sample_host]
    initCometD_keeps_only_scriptPromise
      [of "snd (initCometD sample_config sample_host module_init)"
          "sample_config\<lparr>channel := JStr ''/event/Other__e''\<rparr>" sample_host]
    initCometD_keeps_only_scriptPromise
      [of module_init "sample_config\<lparr>channel := JNull\<rparr>" sample_host]
  by (simp add: sample_run)

text \<open>
  C7. Over any sequence of calls of \<^verbatim>\<open>initCometD\<close> from a freshly loaded module, the
  host's \<^verbatim>\<open>loadScript\<close> is called at most once. \<^verbatim>\<open>loadCometd\<close> calls it while
  \<^verbatim>\<open>scriptPromise\<close> is unset and stores the promise it returns; once a promise is stored,
  \<^verbatim>\<open>loadCometd\<close> returns that promise without a call, and no later call of
  \<^verbatim>\<open>initCometD\<close> replaces it or calls the loader.
\<close>

theorem loadScript_at_most_once:
  "length (filter is_LoadScript (calls (run_calls cs module_init))) \<le> 1 \<and>
   (scriptPromise w = None \<longrightarrow>
      loadCometd ctx h w = (fst (loadScript ctx h w),
                            (snd (loadScript ctx h w))\<lparr>scriptPromise := Some (fst (loadScript ctx h w))\<rparr>) \<and>
      calls (snd (loadCometd ctx h w)) = calls w @ [LoadScript ctx]) \<and>
   (\<forall>p. scriptPromise w = Some p \<longrightarrow>
      loadCometd ctx h w = (p, w) \<and>
      scriptPromise (run_calls cs w) = Some p \<and>
      filter is_LoadScript (calls (run_calls cs w)) = filter is_LoadScript (calls w))"
proof -
  have "length (filter is_LoadScript (calls (run_calls cs module_init))) \<le> 1"
    using run_calls_unset [of module_init cs] by simp
  moreover have "scriptPromise w = None \<longrightarrow>
      loadCometd ctx h w = (fst (loadScript ctx h w),
                            (snd (loadScript ctx h w))\<lparr>scriptPromise := Some (fst (loadScript ctx h w))\<rparr>) \<and>
      calls (snd (loadCometd ctx h w)) = calls w @ [LoadScript ctx]"
    by (simp add: loadCometd_def loadScript_def split: prod.splits)
  moreover have "\<forall>p. scriptPromise w = Some p \<longrightarrow>
      loadCometd ctx h w = (p, w) \<and>
      scriptPromise (run_calls cs w) = Some p \<and>
      filter is_LoadScript (calls (run_calls cs w)) = filter is_LoadScript (calls w)"
    using run_calls_set [of w _ cs] by (simp add: loadCometd_def)
  ultimately show ?thesis by blast
qed

theorem loadScript_at_most_once_witness:
  "length (filter is_LoadScript (calls (run_calls
      [(sample_config, sample_host), (sample_config, sample_host)] module_init))) \<le> 1 \<and>
   loadCometd sample_context sample_host module_init =
     (Promise 0 (Resolved JUndefined),
      \<lparr>scriptPromise = Some (Promise 0 (Resolved JUndefined)), calls = [LoadScript sample_context]\<rparr>) \<and>
   loadCometd sample_context sample_host
     \<lparr>scriptPromise = Some (Promise 0 (Resolved JUndefined)), calls = [LoadScript sample_context]\<rparr> =
     (Promise 0 (Resolved JUndefined),
      \<lparr>scriptPromise = Some (Promise 0 (Resolved JUndefined)), calls = [LoadScript sample_context]\<rparr>)"
  using loadScript_at_most_once
      [of "[(sample_config, sample_host), (sample_config, sample_host)]" module_init
          sample_context sample_host]
    loadScript_at_most_once
      [of "[]" "\<lparr>scriptPromise = Some (Promise 0 (Resolved JUndefined)),
                 calls = [LoadScript sample_context]\<rparr>" sample_context sample_host]
  by (simp add: loadScript_def log_def module_init_def sample_host_def)

subsection \<open>The handshake\<close>

text \<open>
  C8, as claimed: when the handshake callback receives a status that is not successful, the
  promise rejects with that status and \<^verbatim>\<open>cometd.subscribe\<close> is never called for that
  initialization. The callback stays with the client: when a first handshake fails and a
  later one succeeds, the promise is rejected with the first status and the second
  invocation subscribes all the same; and when a first handshake succeeds and a later one
  fails, the promise stays resolved.
\<close>

theorem subscribes_after_rejection:
  "fst (initCometD sample_config
          (sample_host\<lparr>handshake_steps :=
             [Invoke (JObj [(''successful'', JBool False)]) (Returns JUndefined) False,
              Invoke (JObj [(''successful'', JBool True)]) (Returns (JObj [(''id'', JNum 1)])) False]\<rparr>)
          module_init) =
     Rejected (JObj [(''successful'', JBool False)]) \<and>
   filter is_Subscribe (calls (snd (initCometD sample_config
          (sample_host\<lparr>handshake_steps :=
             [Invoke (JObj [(''successful'', JBool False)]) (Returns JUndefined) False,
              Invoke (JObj [(''successful'', JBool True)]) (Returns (JObj [(''id'', JNum 1)])) False]\<rparr>)
          module_init))) =
     [Subscribe 0 (JStr ''/event/Refresh__e'') (JFun (UserFn 1))] \<and>
   fst (initCometD sample_config
          (sample_host\<lparr>handshake_steps :=
             [Invoke (JObj [(''successful'', JBool True)]) (Returns (JObj [(''id'', JNum 1)])) False,
              Invoke (JObj [(''successful'', JBool False)]) (Returns JUndefined) False]\<rparr>)
          module_init) =
     Resolved (handle 0 (JObj [(''id'', JNum 1)]))"
  by (simp add: run_defs sample_config_def sample_host_def module_init_def sample_window_def)

text \<open>
  C8, amended. An invocation of the handshake callback with a status that is absent or not
  successful makes no call of \<^verbatim>\<open>cometd.subscribe\<close> and calls \<^verbatim>\<open>reject\<close> with that status,
  which rejects the promise of \<^verbatim>\<open>initCometD\<close> if it is not settled yet; it is not when
  this invocation is the first thing the client does after \<^verbatim>\<open>handshake\<close> is called. A
  call that reaches \<^verbatim>\<open>cometd.handshake\<close> calls \<^verbatim>\<open>cometd.subscribe\<close> once for each
  invocation with a successful status, whether or not the promise is settled by then, and
  so never if no invocation has a successful status.
\<close>

theorem unsuccessful_handshake_rejects:
  assumes "initCometD cfg h w = (out, w')"
    and "Handshake c \<in> set (new_calls w w')"
  shows "(\<forall>status answer p w0. \<not> truthy (opt_get status ''successful'') \<longrightarrow>
            handshake_callback ch f c status answer (p, w0) =
              (Returns (), settle_with (Rejected status) p, w0) \<and>
            settle_with (Rejected status) Pending = Rejected status) \<and>
         (\<forall>status answer escapes rest.
            handshake_steps h = Invoke status answer escapes # rest \<and>
            \<not> truthy (opt_get status ''successful'') \<longrightarrow> out = Rejected status) \<and>
         length (filter is_Subscribe (new_calls w w')) =
           length (filter subscribes (handshake_steps h)) \<and>
         ((\<forall>x \<in> set (handshake_steps h). \<not> subscribes x) \<longrightarrow>
            filter is_Subscribe (new_calls w w') = [])"
proof -
  from handshake_reached [OF assms] obtain a where
    nc: "new_calls w w' =
             (if scriptPromise w = None then [LoadScript (context' cfg)] else []) @
             [GetContext, NewCometD c,
              Configure c (configuration h
                 (if truthy_str (apiVersion a) then str_of (apiVersion a) else ''65.0'') a
                 (default_to (JStr ''debug'') (logLevel cfg))),
              SetWebsocketEnabled c (default_to (JBool False) (websocketEnabled cfg)),
              Handshake c] @
             map (\<lambda>x. Subscribe c (channel cfg)
                        (if typeof (onMessage cfg) = ''function'' then onMessage cfg
                         else JFun NoopFn))
               (filter subscribes (handshake_steps h))"
    and out: "out = fst (run_client (channel cfg)
                        (if typeof (onMessage cfg) = ''function'' then onMessage cfg
                         else JFun NoopFn) c (handshake_steps h) (Pending, w))"
    by blast
  have subs: "filter is_Subscribe (new_calls w w') =
      map (\<lambda>x. Subscribe c (channel cfg)
                        (if typeof (onMessage cfg) = ''function'' then onMessage cfg
                         else JFun NoopFn))
               (filter subscribes (handshake_steps h))"
    unfolding nc by simp
  have "out = Rejected status"
    if "handshake_steps h = Invoke status answer escapes # rest"
      and "\<not> truthy (opt_get status ''successful'')" for status answer escapes rest
    unfolding out that(1) using that(2) by (rule run_client_unsuccessful_first)
  moreover have "filter is_Subscribe (new_calls w w') = []"
    if "\<forall>x \<in> set (handshake_steps h). \<not> subscribes x"
  proof -
    from that have "filter subscribes (handshake_steps h) = []"
      by (simp add: filter_empty_conv)
    then show ?thesis unfolding subs by simp
  qed
  moreover have "length (filter is_Subscribe (new_calls w w')) =
           length (filter subscribes (handshake_steps h))"
    unfolding subs by simp
  ultimately show ?thesis
    by auto
qed

lemma failed_handshake_run:
  "initCometD sample_config
     (sample_host\<lparr>handshake_steps := [Invoke JUndefined (Returns JUndefined) False]\<rparr>) module_init =
     (Rejected JUndefined,
      \<lparr>scriptPromise = Some (Promise 0 (Resolved JUndefined)),
       calls = [LoadScript sample_context, GetContext, NewCometD 0,
                Configure 0 (configuration sample_host ''60.0''
                  \<lparr>sessionId = Some ''00Dxx!AQ'', apiVersion = Some ''60.0''\<rparr> (JStr ''debug'')),
                SetWebsocketEnabled 0 (JBool False), Handshake 0]\<rparr>)"
  by (simp add: run_defs sample_config_def sample_host_def module_init_def sample_window_def
      configuration_def)

theorem unsuccessful_handshake_rejects_witness:
  "fst (initCometD sample_config
          (sample_host\<lparr>handshake_steps := [Invoke JUndefined (Returns JUndefined) False]\<rparr>)
          module_init) = Rejected JUndefined \<and>
   filter is_Subscribe
     (new_calls module_init
        (snd (initCometD sample_config
                (sample_host\<lparr>handshake_steps := [Invoke JUndefined (Returns JUndefined) False]\<rparr>)
                module_init))) = [] \<and>
   handshake_callback (JStr ''/event/Refresh__e'') (JFun (UserFn 1)) 0 JUndefined
       (Returns JUndefined) (Pending, module_init) =
     (Returns (), Rejected JUndefined, module_init)"
proof -
  let ?h = "sample_host\<lparr>handshake_steps := [Invoke JUndefined (Returns JUndefined) False]\<rparr>"
  have steps: "handshake_steps ?h = Invoke JUndefined (Returns JUndefined) False # []"
    by simp
  have reached: "Handshake 0 \<in> set (new_calls module_init
      \<lparr>scriptPromise = Some (Promise 0 (Resolved JUndefined)),
       calls = [LoadScript sample_context, GetContext, NewCometD 0,
                Configure 0 (configuration sample_host ''60.0''
                  \<lparr>sessionId = Some ''00Dxx!AQ'', apiVersion = Some ''60.0''\<rparr> (JStr ''debug'')),
                SetWebsocketEnabled 0 (JBool False), Handshake 0]\<rparr>)"
    by (simp add: new_calls_def)
  have falsy: "\<not> truthy (opt_get JUndefined ''successful'')"
    by (simp add: opt_get_def)
  have none: "\<forall>x \<in> set (handshake_steps ?h). \<not> subscribes x"
    by (simp add: opt_get_def)
  from unsuccessful_handshake_rejects [OF failed_handshake_run reached,
      of "JStr ''/event/Refresh__e''" "JFun (UserFn 1)"] steps falsy none
  have "Rejected JUndefined = Rejected JUndefined \<and>
    filter is_Subscribe (new_calls module_init
      \<lparr>scriptPromise = Some (Promise 0 (Resolved JUndefined)),
       calls = [LoadScript sample_context, GetContext, NewCometD 0,
                Configure 0 (configuration sample_host ''60.0''
                  \<lparr>sessionId = Some ''00Dxx!AQ'', apiVersion = Some ''60.0''\<rparr> (JStr ''debug'')),
                SetWebsocketEnabled 0 (JBool False), Handshake 0]\<rparr>) = [] \<and>
    handshake_callback (JStr ''/event/Refresh__e'') (JFun (UserFn 1)) 0 JUndefined
       (Returns JUndefined) (Pending, module_init) =
     (Returns (), Rejected JUndefined, module_init)"
    by (metis settle_with_simps(1))
  then show ?thesis
    by (simp add: failed_handshake_run)
qed

subsection \<open>The message handler\<close>

lemma fst_on_ready_handler:
  "fst (on_ready ch f lv ws ctx h w) = fst (on_ready ch g lv ws ctx h w)"
  by (auto simp: fst_on_ready intro: fst_run_client_indep split: option.splits)

text \<open>
  C9. When \<^verbatim>\<open>onMessage\<close> is not a function, absent included, the call runs as it does
  with a no-op function for \<^verbatim>\<open>onMessage\<close>. Every handler passed to \<^verbatim>\<open>cometd.subscribe\<close> is
  a function: \<^verbatim>\<open>onMessage\<close> itself when it is one, the no-op otherwise. How the promise
  settles does not depend on \<^verbatim>\<open>onMessage\<close> at all, so no call fails for want of a handler.
\<close>

theorem noop_handler_substituted:
  "(typeof (onMessage cfg) \<noteq> ''function'' \<longrightarrow>
      initCometD cfg h w = initCometD (cfg\<lparr>onMessage := JFun NoopFn\<rparr>) h w) \<and>
   (\<forall>c ch f. Subscribe c ch f \<in> set (new_calls w (snd (initCometD cfg h w))) \<longrightarrow>
      typeof f = ''function'' \<and>
      f = (if typeof (onMessage cfg) = ''function'' then onMessage cfg else JFun NoopFn)) \<and>
   fst (initCometD (cfg\<lparr>onMessage := v\<rparr>) h w) = fst (initCometD cfg h w)"
proof (cases "truthy (context' cfg) \<and> truthy (channel cfg)")
  case True
  then have valid: "truthy (context' cfg)" "truthy (channel cfg)"
    by simp_all
  have "typeof (onMessage cfg) \<noteq> ''function'' \<longrightarrow>
      initCometD cfg h w = initCometD (cfg\<lparr>onMessage := JFun NoopFn\<rparr>) h w"
    by (simp add: initCometD_valid valid Let_def split: settle.splits prod.splits)
  moreover have "\<forall>c ch f. Subscribe c ch f \<in> set (new_calls w (snd (initCometD cfg h w))) \<longrightarrow>
      typeof f = ''function'' \<and>
      f = (if typeof (onMessage cfg) = ''function'' then onMessage cfg else JFun NoopFn)"
    unfolding new_calls_initCometD [OF valid]
    by (auto simp: new_calls_def calls_on_ready
        split: settle.splits if_splits option.splits)
  moreover have "fst (initCometD (cfg\<lparr>onMessage := v\<rparr>) h w) = fst (initCometD cfg h w)"
    by (auto simp: fst_initCometD valid intro: fst_on_ready_handler
        split: settle.splits prod.splits)
  ultimately show ?thesis by blast
next
  case False
  then have "initCometD cfg h w = initCometD (cfg\<lparr>onMessage := JFun NoopFn\<rparr>) h w"
    and "new_calls w (snd (initCometD cfg h w)) = []"
    and "fst (initCometD (cfg\<lparr>onMessage := v\<rparr>) h w) = fst (initCometD cfg h w)"
    by (auto simp: initCometD_def new_calls_def)
  then show ?thesis by simp
qed

theorem noop_handler_substituted_witness:
  "initCometD (sample_config\<lparr>onMessage := JStr ''not a function''\<rparr>) sample_host module_init =
     initCometD (sample_config\<lparr>onMessage := JFun NoopFn\<rparr>) sample_host module_init \<and>
   fst (initCometD (sample_config\<lparr>onMessage := JUndefined\<rparr>) sample_host module_init) =
     Resolved (handle 0 (JObj [(''id'', JNum 1)]))"
  using noop_handler_substituted
      [of "sample_config\<lparr>onMessage := JStr ''not a function''\<rparr>" sample_host module_init JUndefined]
    noop_handler_substituted [of sample_config sample_host module_init JUndefined]
  by (simp add: sample_run)

subsection \<open>Log level and transport\<close>




subsection \<open>The authentication context\<close>

text \<open>
  C6, as claimed: when the fetched context lacks a \<^verbatim>\<open>sessionId\<close>, the promise rejects with
  \<open>CometD init could not resolve session id.\<close>, and the apiVersion of the URL is the
  fetched one unless the context omits it. The check of line 35 comes first: with the
  script loaded, the context fetched without a \<^verbatim>\<open>sessionId\<close> and no
  \<^verbatim>\<open>window.org.cometd.CometD\<close>, the promise rejects with
  \<open>CometD library not found on window.\<close> And a fetched apiVersion that is the empty
  string is replaced by \<open>65.0\<close> as a missing one is.
\<close>

theorem missing_library_rejects_first:
  "getContext_result
     (sample_host\<lparr>getContext_result := Resolved (Some \<lparr>sessionId = None, apiVersion = Some ''60.0''\<rparr>),
                  window := JObj []\<rparr>) =
     Resolved (Some \<lparr>sessionId = None, apiVersion = Some ''60.0''\<rparr>) \<and>
   fst (initCometD sample_config
          (sample_host\<lparr>getContext_result := Resolved (Some \<lparr>sessionId = None, apiVersion = Some ''60.0''\<rparr>),
                       window := JObj []\<rparr>) module_init) =
     Rejected (JError ''CometD library not found on window.'') \<and>
   fst (initCometD sample_config
          (sample_host\<lparr>getContext_result := Resolved (Some \<lparr>sessionId = None, apiVersion = Some ''60.0''\<rparr>),
                       window := JObj []\<rparr>) module_init) \<noteq>
     Rejected (JError ''CometD init could not resolve session id.'') \<and>
   calls (snd (initCometD sample_config
          (sample_host\<lparr>getContext_result :=
              Resolved (Some \<lparr>sessionId = Some ''00Dxx!AQ'', apiVersion = Some ''''\<rparr>)\<rparr>)
          module_init)) ! 3 =
     Configure 0
       (JObj [(''url'', JStr ''https://example.my.site.com/cometd/65.0/''),
              (''requestHeaders'', JObj [(''Authorization'', JStr ''OAuth 00Dxx!AQ'')]),
              (''appendMessageTypeToURL'', JBool False),
              (''logLevel'', JStr ''debug'')])"
  by (simp add: run_defs configuration_def sample_window_def sample_host_def)

text \<open>
  C6, amended. A call that passes the checks of the configuration calls \<^verbatim>\<open>getContext\<close>
  once. When the fetched context is \<^verbatim>\<open>null\<close> or has no \<^verbatim>\<open>sessionId\<close> (or an empty
  one), no CometD instance is constructed, and the promise rejects with
  \<open>CometD init could not resolve session id.\<close> provided the script promise has resolved
  and \<^verbatim>\<open>window.org.cometd.CometD\<close> is there. When both promises have resolved and
  \<^verbatim>\<open>window.org.cometd.CometD\<close> is not there, the promise rejects with
  \<open>CometD library not found on window.\<close>, whatever the context. When the script promise
  or the promise of \<^verbatim>\<open>getContext\<close> is rejected, the promise rejects with the reason of that
  rejection, of the first one when both are rejected. Every \<^verbatim>\<open>configure\<close> of the call
  carries the request header Authorization \<open>OAuth\<close>, a space and the fetched
  \<^verbatim>\<open>sessionId\<close>, and the url \<^verbatim>\<open>protocol//hostname/cometd/apiVersion/\<close> of the current
  location, where apiVersion is the fetched one, or \<open>65.0\<close> when the fetched one is
  missing or empty; and \<^verbatim>\<open>configure\<close> is called when the script promise has resolved, the
  library is there, the context has a \<^verbatim>\<open>sessionId\<close> and the constructor returns.
\<close>

theorem initCometD_uses_fetched_context:
  assumes "initCometD cfg h w = (out, w')"
  shows
    "(truthy (context' cfg) \<and> truthy (channel cfg) \<longrightarrow>
        filter is_GetContext (new_calls w w') = [GetContext]) \<and>
     (\<forall>ctx. getContext_result h = Resolved ctx \<and> \<not> truthy_str (opt_sessionId ctx) \<longrightarrow>
        filter is_NewCometD (new_calls w w') = [] \<and>
        (truthy (context' cfg) \<and> truthy (channel cfg) \<and>
         (\<exists>u. outcome (fst (loadCometd (context' cfg) h w)) = Resolved u) \<and>
         truthy (opt_get (opt_get (opt_get (window h) ''org'') ''cometd'') ''CometD'') \<longrightarrow>
         out = Rejected (JError ''CometD init could not resolve session id.''))) \<and>
     (\<forall>c opts. Configure c opts \<in> set (new_calls w w') \<longrightarrow>
        (\<exists>a sid. getContext_result h = Resolved (Some a) \<and> sessionId a = Some sid \<and> sid \<noteq> [] \<and>
           get_prop (get_prop opts ''requestHeaders'') ''Authorization'' = JStr (''OAuth '' @ sid) \<and>
           get_prop opts ''url'' =
             JStr (location_protocol h @ ''//'' @ location_hostname h @ ''/cometd/'' @
                   (case apiVersion a of
                      None \<Rightarrow> ''65.0''
                    | Some v \<Rightarrow> if v = [] then ''65.0'' else v) @ ''/''))) \<and>
     (\<forall>a u. truthy (context' cfg) \<and> truthy (channel cfg) \<and>
        outcome (fst (loadCometd (context' cfg) h w)) = Resolved u \<and>
        getContext_result h = Resolved (Some a) \<and> truthy_str (sessionId a) \<and>
        truthy (opt_get (opt_get (opt_get (window h) ''org'') ''cometd'') ''CometD'') \<and>
        new_CometD_throws h = None \<longrightarrow>
        (\<exists>c opts. Configure c opts \<in> set (new_calls w w'))) \<and>
     (\<forall>u ctx. truthy (context' cfg) \<and> truthy (channel cfg) \<and>
        outcome (fst (loadCometd (context' cfg) h w)) = Resolved u \<and>
        getContext_result h = Resolved ctx \<and>
        \<not> truthy (opt_get (opt_get (opt_get (window h) ''org'') ''cometd'') ''CometD'') \<longrightarrow>
        out = Rejected (JError ''CometD library not found on window.'')) \<and>
     (\<forall>r. truthy (context' cfg) \<and> truthy (channel cfg) \<and>
        outcome (fst (loadCometd (context' cfg) h w)) = Rejected r \<and>
        (\<forall>r'. getContext_result h \<noteq> Rejected r') \<longrightarrow> out = Rejected r) \<and>
     (\<forall>r'. truthy (context' cfg) \<and> truthy (channel cfg) \<and>
        getContext_result h = Rejected r' \<and>
        (\<forall>r. outcome (fst (loadCometd (context' cfg) h w)) \<noteq> Rejected r) \<longrightarrow>
        out = Rejected r') \<and>
     (\<forall>r r'. truthy (context' cfg) \<and> truthy (channel cfg) \<and>
        outcome (fst (loadCometd (context' cfg) h w)) = Rejected r \<and>
        getContext_result h = Rejected r' \<longrightarrow>
        out = Rejected (if script_rejects_first h then r else r'))"
proof (cases "truthy (context' cfg) \<and> truthy (channel cfg)")
  case True
  then have valid: "truthy (context' cfg)" "truthy (channel cfg)"
    by simp_all
  have w': "w' = snd (initCometD cfg h w)" and out: "out = fst (initCometD cfg h w)"
    using assms by simp_all
  let ?p = "promise_all (outcome (fst (loadCometd (context' cfg) h w))) (getContext_result h)
             (script_rejects_first h)"
  have one: "filter is_GetContext (new_calls w w') = [GetContext]"
    unfolding w' new_calls_initCometD [OF valid]
    by (auto simp: new_calls_def calls_on_ready
        split: settle.splits if_splits option.splits)
  have two: "filter is_NewCometD (new_calls w w') = [] \<and>
        (truthy (context' cfg) \<and> truthy (channel cfg) \<and>
         (\<exists>u. outcome (fst (loadCometd (context' cfg) h w)) = Resolved u) \<and>
         truthy (opt_get (opt_get (opt_get (window h) ''org'') ''cometd'') ''CometD'') \<longrightarrow>
         out = Rejected (JError ''CometD init could not resolve session id.''))"
    if gc: "getContext_result h = Resolved ctx" and no: "\<not> truthy_str (opt_sessionId ctx)" for ctx
  proof -
    have ctx: "ctx = None \<or> (\<exists>a. ctx = Some a \<and> \<not> truthy_str (sessionId a))"
      using no by (cases ctx) simp_all
    have "filter is_NewCometD (new_calls w w') = []"
      unfolding w' new_calls_initCometD [OF valid]
      using ctx gc
      by (auto simp: new_calls_def calls_on_ready promise_all_Resolved split: settle.splits)
    moreover have "out = Rejected (JError ''CometD init could not resolve session id.'')"
      if "outcome (fst (loadCometd (context' cfg) h w)) = Resolved u"
        and "truthy (opt_get (opt_get (opt_get (window h) ''org'') ''cometd'') ''CometD'')" for u
      using ctx that
      by (auto simp: out fst_initCometD [OF valid] gc fst_on_ready)
    ultimately show ?thesis by blast
  qed
  have three: "\<exists>a sid. getContext_result h = Resolved (Some a) \<and> sessionId a = Some sid \<and> sid \<noteq> [] \<and>
           get_prop (get_prop opts ''requestHeaders'') ''Authorization'' = JStr (''OAuth '' @ sid) \<and>
           get_prop opts ''url'' =
             JStr (location_protocol h @ ''//'' @ location_hostname h @ ''/cometd/'' @
                   (case apiVersion a of
                      None \<Rightarrow> ''65.0''
                    | Some v \<Rightarrow> if v = [] then ''65.0'' else v) @ ''/'')"
    if conf: "Configure c opts \<in> set (new_calls w w')" for c opts
  proof -
    obtain u ctx where p: "?p = Resolved (u, ctx)"
      using conf unfolding w' new_calls_initCometD [OF valid]
      by (cases ?p) (auto split: if_splits)
    then have gc: "getContext_result h = Resolved ctx"
      by (simp add: promise_all_Resolved)
    from conf obtain a where a: "ctx = Some a" "truthy_str (sessionId a)"
      and opts: "opts = configuration h
                 (if truthy_str (apiVersion a) then str_of (apiVersion a) else ''65.0'') a
                 (default_to (JStr ''debug'') (logLevel cfg))"
      unfolding w' new_calls_initCometD [OF valid] p
      by (auto simp: new_calls_def calls_on_ready
          split: if_splits option.splits)
    from a obtain sid where sid: "sessionId a = Some sid" "sid \<noteq> []"
      by (cases "sessionId a") simp_all
    show ?thesis
      using gc a sid
      by (cases "apiVersion a") (simp_all add: opts configuration_def)
  qed
  have four: "\<exists>c opts. Configure c opts \<in> set (new_calls w w')"
    if "outcome (fst (loadCometd (context' cfg) h w)) = Resolved u"
      and "getContext_result h = Resolved (Some a)" and "truthy_str (sessionId a)"
      and "truthy (opt_get (opt_get (opt_get (window h) ''org'') ''cometd'') ''CometD'')"
      and "new_CometD_throws h = None" for a u
  proof -
    have "Configure (length (filter is_NewCometD (calls w)))
            (configuration h
                 (if truthy_str (apiVersion a) then str_of (apiVersion a) else ''65.0'') a
                 (default_to (JStr ''debug'') (logLevel cfg))) \<in> set (new_calls w w')"
      unfolding w' new_calls_initCometD [OF valid]
      using that
      by (simp add: new_calls_def calls_on_ready news_loadCometd)
    then show ?thesis by blast
  qed
  have five: "out = Rejected (JError ''CometD library not found on window.'')"
    if "outcome (fst (loadCometd (context' cfg) h w)) = Resolved u"
      and "getContext_result h = Resolved ctx"
      and "\<not> truthy (opt_get (opt_get (opt_get (window h) ''org'') ''cometd'') ''CometD'')"
    for u ctx
    using that by (simp add: out fst_initCometD [OF valid] fst_on_ready)
  have six: "out = Rejected r"
    if "outcome (fst (loadCometd (context' cfg) h w)) = Rejected r"
      and "\<forall>r'. getContext_result h \<noteq> Rejected r'" for r
    using that by (simp add: out fst_initCometD [OF valid] promise_all_Rejected)
  have seven: "out = Rejected r'"
    if "getContext_result h = Rejected r'"
      and "\<forall>r. outcome (fst (loadCometd (context' cfg) h w)) \<noteq> Rejected r" for r'
    using that by (simp add: out fst_initCometD [OF valid] promise_all_Rejected)
  have eight: "out = Rejected (if script_rejects_first h then r else r')"
    if "outcome (fst (loadCometd (context' cfg) h w)) = Rejected r"
      and "getContext_result h = Rejected r'" for r r'
    using that by (simp add: out fst_initCometD [OF valid])
  from one two three four five six seven eight show ?thesis
    by blast
next
  case False
  from initCometD_invalid [OF False, of h w] have "w' = w"
    using assms by simp
  then have "new_calls w w' = []"
    by (simp add: new_calls_def)
  with False show ?thesis by auto
qed

theorem initCometD_uses_fetched_context_witness:
  "filter is_GetContext
     (new_calls module_init (snd (initCometD sample_config sample_host module_init))) =
     [GetContext] \<and>
   get_prop (get_prop (configuration sample_host ''60.0''
        \<lparr>sessionId = Some ''00Dxx!AQ'', apiVersion = Some ''60.0''\<rparr> (JStr ''debug''))
      ''requestHeaders'') ''Authorization'' = JStr ''OAuth 00Dxx!AQ'' \<and>
   get_prop (configuration sample_host ''60.0''
        \<lparr>sessionId = Some ''00Dxx!AQ'', apiVersion = Some ''60.0''\<rparr> (JStr ''debug''))
      ''url'' = JStr ''https://example.my.site.com/cometd/60.0/'' \<and>
   fst (initCometD sample_config (sample_host\<lparr>getContext_result := Resolved None\<rparr>) module_init) =
     Rejected (JError ''CometD init could not resolve session id.'') \<and>
   filter is_NewCometD
     (new_calls module_init
        (snd (initCometD sample_config (sample_host\<lparr>getContext_result := Resolved None\<rparr>)
                module_init))) = [] \<and>
   fst (initCometD sample_config (sample_host\<lparr>window := JObj []\<rparr>) module_init) =
     Rejected (JError ''CometD library not found on window.'') \<and>
   fst (initCometD sample_config
          (sample_host\<lparr>loadScript_result := Rejected (JError ''load failed'')\<rparr>) module_init) =
     Rejected (JError ''load failed'')"
proof -
  let ?opts = "configuration sample_host ''60.0''
        \<lparr>sessionId = Some ''00Dxx!AQ'', apiVersion = Some ''60.0''\<rparr> (JStr ''debug'')"
  let ?h = "sample_host\<lparr>getContext_result := Resolved None\<rparr>"
  have conf: "Configure 0 ?opts \<in>
      set (new_calls module_init (snd (initCometD sample_config sample_host module_init)))"
    by (simp add: sample_run new_calls_def)
  have fetched: "getContext_result sample_host =
      Resolved (Some \<lparr>sessionId = Some ''00Dxx!AQ'', apiVersion = Some ''60.0''\<rparr>)"
    "location_protocol sample_host = ''https:''"
    "location_hostname sample_host = ''example.my.site.com''"
    by (simp_all add: sample_host_def)
  have run: "initCometD sample_config sample_host module_init =
      (fst (initCometD sample_config sample_host module_init),
       snd (initCometD sample_config sample_host module_init))"
    by simp
  have run': "initCometD sample_config ?h module_init =
      (fst (initCometD sample_config ?h module_init), snd (initCometD sample_config ?h module_init))"
    by simp
  have none: "getContext_result ?h = Resolved None" "\<not> truthy_str (opt_sessionId None)"
    "truthy (context' sample_config)" "truthy (channel sample_config)"
    "outcome (fst (loadCometd (context' sample_config) ?h module_init)) = Resolved JUndefined"
    "truthy (opt_get (opt_get (opt_get (window ?h) ''org'') ''cometd'') ''CometD'')"
    using truthy_sample_window
    by (simp_all add: loadCometd_cases sample_host_def)
  from initCometD_uses_fetched_context [OF run] conf fetched
  have "filter is_GetContext
     (new_calls module_init (snd (initCometD sample_config sample_host module_init))) =
     [GetContext] \<and>
     get_prop (get_prop ?opts ''requestHeaders'') ''Authorization'' = JStr ''OAuth 00Dxx!AQ'' \<and>
     get_prop ?opts ''url'' = JStr ''https://example.my.site.com/cometd/60.0/''"
    by fastforce
  moreover from initCometD_uses_fetched_context [OF run'] none
  have "fst (initCometD sample_config ?h module_init) =
     Rejected (JError ''CometD init could not resolve session id.'') \<and>
   filter is_NewCometD
     (new_calls module_init (snd (initCometD sample_config ?h module_init))) = []"
    by blast
  moreover have "fst (initCometD sample_config (sample_host\<lparr>window := JObj []\<rparr>) module_init) =
     Rejected (JError ''CometD library not found on window.'')"
  proof -
    let ?g = "sample_host\<lparr>window := JObj []\<rparr>"
    have run: "initCometD sample_config ?g module_init =
        (fst (initCometD sample_config ?g module_init), snd (initCometD sample_config ?g module_init))"
      by simp
    have "truthy (context' sample_config)" "truthy (channel sample_config)"
      "outcome (fst (loadCometd (context' sample_config) ?g module_init)) = Resolved JUndefined"
      "getContext_result ?g =
         Resolved (Some \<lparr>sessionId = Some ''00Dxx!AQ'', apiVersion = Some ''60.0''\<rparr>)"
      "\<not> truthy (opt_get (opt_get (opt_get (window ?g) ''org'') ''cometd'') ''CometD'')"
      by (simp_all add: loadCometd_cases sample_host_def opt_get_def)
    with initCometD_uses_fetched_context [OF run] show ?thesis
      by blast
  qed
  moreover have "fst (initCometD sample_config
          (sample_host\<lparr>loadScript_result := Rejected (JError ''load failed'')\<rparr>) module_init) =
     Rejected (JError ''load failed'')"
  proof -
    let ?g = "sample_host\<lparr>loadScript_result := Rejected (JError ''load failed'')\<rparr>"
    have run: "initCometD sample_config ?g module_init =
        (fst (initCometD sample_config ?g module_init), snd (initCometD sample_config ?g module_init))"
      by simp
    have "truthy (context' sample_config)" "truthy (channel sample_config)"
      "outcome (fst (loadCometd (context' sample_config) ?g module_init)) =
         Rejected (JError ''load failed'')"
      "\<forall>r'. getContext_result ?g \<noteq> Rejected r'"
      by (simp_all add: loadCometd_cases sample_host_def)
    with initCometD_uses_fetched_context [OF run] show ?thesis
      by blast
  qed
  ultimately show ?thesis by simp
qed

end
